theory Spec2Isabelle
  imports Complex_Main "HOL-Library.Char_ord" "HOL-Library.List_Lexorder"
begin

section \<open>Conventions of the embedding\<close>

text \<open>
  The Python sources compute with IEEE doubles. The embedding reads every finite double
  as the real number it denotes and every arithmetic operation as the exact operation on
  reals; rounding is not modelled. Where the source can raise, the model returns
  \<open>Inl\<close> of the exception; where a claim depends on the IEEE special values (the
  RSI quotient), they are made explicit in a datatype of their own.
\<close>

datatype py_error =
    IndexError | ZeroDivisionError | ValueError | UnboundLocalError
  | RuntimeError | AttributeError | ConnectionError

text \<open>The constant \<open>1e-6\<close> of the sources.\<close>

definition eps6 :: real where
  "eps6 = 1 / 1000000"

text \<open>\<open>xs[i]\<close> on a Python sequence: a negative index counts from the end.\<close>

definition py_index :: "'a list \<Rightarrow> int \<Rightarrow> py_error + 'a" where
  "py_index xs i =
     (if 0 \<le> i \<and> i < int (length xs) then Inr (xs ! nat i)
      else if i < 0 \<and> - int (length xs) \<le> i then Inr (xs ! nat (int (length xs) + i))
      else Inl IndexError)"

text \<open>A slice bound, wrapped and clamped into \<open>0..n\<close> as Python and numpy do.\<close>

definition slice_bound :: "nat \<Rightarrow> int \<Rightarrow> nat" where
  "slice_bound n i = (if i < 0 then nat (max 0 (int n + i)) else min n (nat i))"

definition py_slice :: "'a list \<Rightarrow> int \<Rightarrow> int \<Rightarrow> 'a list" where
  "py_slice xs a b =
     (let lo = slice_bound (length xs) a; hi = slice_bound (length xs) b
      in take (hi - lo) (drop lo xs))"

section \<open>The simulation environment (rl\_trading\_env.py)\<close>

record TradingEnvConfig =
  window_size :: int
  initial_cash :: real
  max_position :: real
  transaction_cost :: real
  reward_scale :: real

text \<open>
  The instance: the configuration, the two arrays read from the CSV file (one price and
  one feature row per bar, so \<open>n_steps\<close> is their common length) and the five
  fields of the internal state.
\<close>

record SingleStockTradingEnv =
  config :: TradingEnvConfig
  prices :: "real list"
  features :: "real list list"
  current_step :: int
  position :: real
  cash :: real
  equity :: real
  equity_start :: real

definition n_steps :: "SingleStockTradingEnv \<Rightarrow> int" where
  "n_steps env = int (length (features env))"

text \<open>
  \<open>_get_observation\<close>: the window of feature rows with the two broadcast columns.
  \<open>np.full\<close> refuses a negative row count, the quotient of two Python floats raises
  on a zero divisor, and \<open>np.concatenate\<close> refuses blocks whose row counts differ.
\<close>

definition get_observation :: "SingleStockTradingEnv \<Rightarrow> py_error + real list list" where
  "get_observation env =
     (let start = current_step env - window_size (config env);
          end' = current_step env;
          feats = py_slice (features env) start end'
      in if window_size (config env) < 0 then Inl ValueError
         else if equity_start env = 0 then Inl ZeroDivisionError
         else
           (let cum_return = equity env / equity_start env - 1
            in if int (length feats) \<noteq> window_size (config env) then Inl ValueError
               else Inr (map (\<lambda>row. row @ [position env, cum_return]) feats)))"

record reset_info =
  ri_equity :: real
  ri_position :: real

definition reset :: "SingleStockTradingEnv \<Rightarrow>
    py_error + (SingleStockTradingEnv \<times> real list list \<times> reset_info)" where
  "reset env =
     (let env' = env\<lparr>current_step := window_size (config env),
                      position := 0,
                      cash := initial_cash (config env),
                      equity := initial_cash (config env),
                      equity_start := initial_cash (config env)\<rparr>
      in case get_observation env' of
           Inl e \<Rightarrow> Inl e
         | Inr obs \<Rightarrow> Inr (env', obs, \<lparr>ri_equity = equity env', ri_position = position env'\<rparr>))"

text \<open>\<open>np.clip(a, lo, hi)\<close> is \<open>minimum(maximum(a, lo), hi)\<close>.\<close>

definition np_clip :: "real \<Rightarrow> real \<Rightarrow> real \<Rightarrow> real" where
  "np_clip a lo hi = min (max a lo) hi"

text \<open>The local variables of \<open>step\<close>, in the order the source computes them.\<close>

definition target_pos_of :: "SingleStockTradingEnv \<Rightarrow> real \<Rightarrow> real" where
  "target_pos_of env a = np_clip a (- max_position (config env)) (max_position (config env))"

definition trade_cost_of :: "SingleStockTradingEnv \<Rightarrow> real \<Rightarrow> real" where
  "trade_cost_of env target_pos =
     equity env * \<bar>target_pos - position env\<bar> * transaction_cost (config env)"

definition price_return_of :: "real \<Rightarrow> real \<Rightarrow> real" where
  "price_return_of prev_price curr_price =
     (if prev_price \<le> 0 then 0 else (curr_price - prev_price) / prev_price)"

definition pnl_of :: "SingleStockTradingEnv \<Rightarrow> real \<Rightarrow> real \<Rightarrow> real" where
  "pnl_of env target_pos price_return =
     equity env * target_pos * price_return - trade_cost_of env target_pos"

record step_info =
  si_equity :: real
  si_position :: real
  si_price_return :: real
  si_step_return :: real

record step_result =
  sr_obs :: "real list list"
  sr_reward :: real
  sr_terminated :: bool
  sr_truncated :: bool
  sr_info :: step_info

text \<open>
  \<open>step\<close>. The action is the array the caller passes; only its first component is
  read. The state is updated before the observation is built, as in the source.
\<close>

definition step :: "SingleStockTradingEnv \<Rightarrow> real list \<Rightarrow>
    py_error + (SingleStockTradingEnv \<times> step_result)" where
  "step env action =
     (case py_index action 0 of
        Inl e \<Rightarrow> Inl e
      | Inr a \<Rightarrow>
     (case py_index (prices env) (current_step env - 1) of
        Inl e \<Rightarrow> Inl e
      | Inr prev_price \<Rightarrow>
     (case py_index (prices env) (current_step env) of
        Inl e \<Rightarrow> Inl e
      | Inr curr_price \<Rightarrow>
        (let target_pos = target_pos_of env a;
             price_return = price_return_of prev_price curr_price;
             prev_equity = equity env;
             pnl = pnl_of env target_pos price_return;
             equity' = max (prev_equity + pnl) eps6;
             step_return = (equity' - prev_equity) / max prev_equity eps6;
             reward = reward_scale (config env) * step_return;
             env' = env\<lparr>position := target_pos, equity := equity',
                          current_step := current_step env + 1\<rparr>;
             terminated = (current_step env' \<ge> n_steps env' - 1)
         in case get_observation env' of
              Inl e \<Rightarrow> Inl e
            | Inr obs \<Rightarrow>
                Inr (env',
                     \<lparr>sr_obs = obs, sr_reward = reward, sr_terminated = terminated,
                      sr_truncated = False,
                      sr_info = \<lparr>si_equity = equity', si_position = target_pos,
                                 si_price_return = price_return,
                                 si_step_return = step_return\<rparr>\<rparr>)))))"

text \<open>
  A run: the caller resets once and then steps with each action in turn. The equity
  reported after every step is collected; an exception ends the run.
\<close>

fun run_steps :: "SingleStockTradingEnv \<Rightarrow> real list list \<Rightarrow>
    py_error + (SingleStockTradingEnv \<times> real list)" where
  "run_steps env [] = Inr (env, [])"
| "run_steps env (a # as) =
     (case step env a of
        Inl e \<Rightarrow> Inl e
      | Inr (env', r) \<Rightarrow>
          (case run_steps env' as of
             Inl e \<Rightarrow> Inl e
           | Inr (env'', es) \<Rightarrow> Inr (env'', si_equity (sr_info r) # es)))"

definition run :: "SingleStockTradingEnv \<Rightarrow> real list list \<Rightarrow>
    py_error + (SingleStockTradingEnv \<times> real list)" where
  "run env actions =
     (case reset env of
        Inl e \<Rightarrow> Inl e
      | Inr (env0, obs, info) \<Rightarrow> run_steps env0 actions)"

text \<open>
  The RUNNING state: the instance satisfies the constructor's assertion (more than
  \<open>window_size + 1\<close> bars, one price per feature row), the cursor has been placed by
  \<open>reset\<close> at or after the window and still points at a bar.
\<close>

definition running :: "SingleStockTradingEnv \<Rightarrow> bool" where
  "running env \<longleftrightarrow>
     length (prices env) = length (features env) \<and>
     int (length (features env)) > window_size (config env) + 1 \<and>
     0 \<le> window_size (config env) \<and>
     window_size (config env) \<le> current_step env \<and>
     current_step env < int (length (prices env)) \<and>
     equity_start env \<noteq> 0"

subsection \<open>Concrete instances\<close>

definition c5_env :: SingleStockTradingEnv where
  "c5_env = \<lparr>config = \<lparr>window_size = 1, initial_cash = 1000, max_position = 1,
                          transaction_cost = 1 / 1000, reward_scale = 1\<rparr>,
             prices = [100, 110, 121], features = [[100], [110], [121]],
             current_step = 1, position = 0, cash = 1000, equity = 1000,
             equity_start = 1000\<rparr>"

definition c9_env :: SingleStockTradingEnv where
  "c9_env = \<lparr>config = \<lparr>window_size = 1, initial_cash = 1000, max_position = 1,
                          transaction_cost = 1 / 1000, reward_scale = 2\<rparr>,
             prices = [0, 110, 121], features = [[0], [110], [121]],
             current_step = 1, position = 0, cash = 1000, equity = 1000,
             equity_start = 1000\<rparr>"

definition c8_env :: SingleStockTradingEnv where
  "c8_env = \<lparr>config = \<lparr>window_size = 1, initial_cash = 1000, max_position = 1,
                          transaction_cost = 0, reward_scale = 1\<rparr>,
             prices = [100, 110, 121, 90], features = [[100], [110], [121], [90]],
             current_step = 0, position = 0, cash = 1000, equity = 1000,
             equity_start = 1000\<rparr>"

definition c8_tiny_env :: SingleStockTradingEnv where
  "c8_tiny_env = c8_env\<lparr>config := (config c8_env)\<lparr>initial_cash := 1 / 10000000\<rparr>\<rparr>"

section \<open>The performance aggregator (trading\_api.py, get\_performance)\<close>

text \<open>
  A row of \<open>account_snapshots\<close>: every column but the time is nullable. The time is
  in seconds; \<open>created_at\<close> is filled by the server default, and a NULL would fail
  the query's comparison, so it is modelled without NULL.
\<close>

record AccountSnapshot =
  as_created_at :: int
  as_total_value :: "real option"
  as_cash :: "real option"
  as_total_buy_amount :: "real option"
  as_total_eval_amount :: "real option"
  as_total_pnl :: "real option"

record PerformanceSnapshot =
  ps_timestamp :: int
  ps_total_value :: real
  ps_cash :: real
  ps_total_buy_amount :: real
  ps_total_eval_amount :: real
  ps_total_pnl :: real

record PerformanceSummary =
  start_value :: real
  end_value :: real
  total_return_pct :: real
  max_drawdown_pct :: real
  pnl_sum :: real

record PerformanceResponse =
  summary :: PerformanceSummary
  snapshots :: "PerformanceSnapshot list"

text \<open>\<open>x or 0.0\<close> on a nullable float column.\<close>

definition or_zero :: "real option \<Rightarrow> real" where
  "or_zero x = (case x of None \<Rightarrow> 0 | Some v \<Rightarrow> v)"

text \<open>
  The query: the rows not older than the cutoff, in ascending order of \<open>created_at\<close>.
\<close>

definition query_snapshots :: "int \<Rightarrow> AccountSnapshot list \<Rightarrow> AccountSnapshot list" where
  "query_snapshots cutoff table =
     sort_key as_created_at (filter (\<lambda>r. cutoff \<le> as_created_at r) table)"

definition to_snapshot :: "AccountSnapshot \<Rightarrow> PerformanceSnapshot" where
  "to_snapshot r =
     \<lparr>ps_timestamp = as_created_at r,
      ps_total_value = or_zero (as_total_value r),
      ps_cash = or_zero (as_cash r),
      ps_total_buy_amount = or_zero (as_total_buy_amount r),
      ps_total_eval_amount = or_zero (as_total_eval_amount r),
      ps_total_pnl = or_zero (as_total_pnl r)\<rparr>"

text \<open>The loop over \<open>equity\<close> that maintains \<open>max_peak\<close> and \<open>max_dd\<close>.\<close>

fun drawdown_loop :: "real \<Rightarrow> real \<Rightarrow> real list \<Rightarrow> real" where
  "drawdown_loop max_peak max_dd [] = max_dd"
| "drawdown_loop max_peak max_dd (v # vs) =
     (let max_peak' = (if v > max_peak then v else max_peak);
          max_dd' = (if max_peak' > 0
                     then (let dd = (max_peak' - v) / max_peak' * 100
                           in if dd > max_dd then dd else max_dd)
                     else max_dd)
      in drawdown_loop max_peak' max_dd' vs)"

definition zero_summary :: PerformanceSummary where
  "zero_summary = \<lparr>start_value = 0, end_value = 0, total_return_pct = 0,
                    max_drawdown_pct = 0, pnl_sum = 0\<rparr>"

text \<open>The body of \<open>get_performance\<close> after the query has returned \<open>rows\<close>.\<close>

definition summarize :: "AccountSnapshot list \<Rightarrow> PerformanceResponse" where
  "summarize rows =
     (if rows = [] then \<lparr>summary = zero_summary, snapshots = []\<rparr>
      else
        (let snaps = map to_snapshot rows;
             equity = map (\<lambda>r. or_zero (as_total_value r)) rows;
             start_val = hd equity;
             end_val = last equity;
             total_return_pct = (if start_val \<noteq> 0
                                 then (end_val - start_val) / start_val * 100 else 0);
             max_dd = drawdown_loop (hd equity) 0 equity;
             pnl_sum = sum_list (map ps_total_pnl snaps)
         in \<lparr>summary = \<lparr>start_value = start_val, end_value = end_val,
                         total_return_pct = total_return_pct,
                         max_drawdown_pct = max_dd, pnl_sum = pnl_sum\<rparr>,
             snapshots = snaps\<rparr>))"

text \<open>
  \<open>get_performance\<close>, with the clock and the table as arguments: the cutoff is
  \<open>days\<close> days before \<open>now\<close>.
\<close>

definition get_performance :: "int \<Rightarrow> int \<Rightarrow> AccountSnapshot list \<Rightarrow> PerformanceResponse" where
  "get_performance now days table = summarize (query_snapshots (now - days * 86400) table)"

text \<open>Concrete snapshots: time, total value and total pnl.\<close>

definition snap :: "int \<Rightarrow> real \<Rightarrow> real \<Rightarrow> AccountSnapshot" where
  "snap t v p = \<lparr>as_created_at = t, as_total_value = Some v, as_cash = None,
                as_total_buy_amount = None, as_total_eval_amount = None,
                as_total_pnl = Some p\<rparr>"

definition c7_table :: "AccountSnapshot list" where
  "c7_table = [snap 300 90 (-10), snap 100 100 0, snap 400 130 30, snap 200 120 20, snap 5 77 1]"

text \<open>
  The maximum drawdown as the specification words it: the largest value over the
  series of \<open>(running_peak - value) / running_peak * 100\<close>, the running peak at an
  index being the largest value up to and including it.
\<close>

definition running_peak :: "real list \<Rightarrow> nat \<Rightarrow> real" where
  "running_peak vs i = Max (set (take (Suc i) vs))"

definition drawdown_at :: "real list \<Rightarrow> nat \<Rightarrow> real" where
  "drawdown_at vs i = (running_peak vs i - vs ! i) / running_peak vs i * 100"

definition spec_max_drawdown :: "real list \<Rightarrow> real" where
  "spec_max_drawdown vs = Max (drawdown_at vs ` {..<length vs})"

section \<open>The indicator engine (technical\_indicators.py)\<close>

text \<open>
  The data frame is modelled by its \<open>close\<close> column, a list of finite values
  (no NaN among the closes), and each function returns the columns it adds.

  \<open>Series.ewm(span=s, adjust=False).mean()\<close> is pandas library code; its
  documentation defines it on NaN-free input by \<open>y_0 = x_0\<close> and
  \<open>y_t = (1 - alpha) * y_(t-1) + alpha * x_t\<close> with \<open>alpha = 2 / (s + 1)\<close>, and
  it refuses a spn below 1.
\<close>

fun ewm_from :: "real \<Rightarrow> real \<Rightarrow> real list \<Rightarrow> real list" where
  "ewm_from alpha prev [] = []"
| "ewm_from alpha prev (x # xs) =
     (let y = (1 - alpha) * prev + alpha * x in y # ewm_from alpha y xs)"

definition ewm_mean :: "int \<Rightarrow> real list \<Rightarrow> py_error + real list" where
  "ewm_mean spn xs =
     (if spn < 1 then Inl ValueError
      else case xs of
             [] \<Rightarrow> Inr []
           | x # xs' \<Rightarrow> Inr (x # ewm_from (2 / (real_of_int spn + 1)) x xs'))"

text \<open>
  \<open>add_exponential_moving_averages\<close>: one column \<open>EMA_<period>\<close> per period, in
  the order of the list; the first failing period raises.
\<close>

fun add_exponential_moving_averages ::
    "real list \<Rightarrow> int list \<Rightarrow> py_error + (int \<times> real list) list" where
  "add_exponential_moving_averages closes [] = Inr []"
| "add_exponential_moving_averages closes (period # periods) =
     (case ewm_mean period closes of
        Inl e \<Rightarrow> Inl e
      | Inr col \<Rightarrow>
          (case add_exponential_moving_averages closes periods of
             Inl e \<Rightarrow> Inl e
           | Inr cols \<Rightarrow> Inr ((period, col) # cols)))"

text \<open>The recursion as the specification words it.\<close>

definition spec_ema_recursion :: "real \<Rightarrow> real list \<Rightarrow> real list \<Rightarrow> bool" where
  "spec_ema_recursion alpha closes ema \<longleftrightarrow>
     length ema = length closes \<and>
     (closes \<noteq> [] \<longrightarrow> ema ! 0 = closes ! 0) \<and>
     (\<forall>t. 0 < t \<and> t < length closes \<longrightarrow>
          ema ! t = ema ! (t - 1) + alpha * (closes ! t - ema ! (t - 1)))"

text \<open>Agreement to the two decimals an example quotes.\<close>

definition approx2 :: "real \<Rightarrow> real \<Rightarrow> bool" where
  "approx2 x y \<longleftrightarrow> \<bar>x - y\<bar> \<le> 5 / 1000"

text \<open>
  A double as the RSI quotient needs it: a finite value (read as a real), one of the two
  infinities, or NaN. The sign of a zero is not modelled: a positive value divided by
  zero is \<open>+inf\<close>. With a negative zero the quotient would be \<open>-inf\<close> and the RSI
  formula below yields the same 100.
\<close>

datatype fl = Fin real | PInf | NInf | NaN

fun fl_add :: "fl \<Rightarrow> fl \<Rightarrow> fl" where
  "fl_add NaN _ = NaN"
| "fl_add _ NaN = NaN"
| "fl_add PInf NInf = NaN"
| "fl_add NInf PInf = NaN"
| "fl_add PInf _ = PInf"
| "fl_add _ PInf = PInf"
| "fl_add NInf _ = NInf"
| "fl_add _ NInf = NInf"
| "fl_add (Fin a) (Fin b) = Fin (a + b)"

fun fl_neg :: "fl \<Rightarrow> fl" where
  "fl_neg NaN = NaN"
| "fl_neg PInf = NInf"
| "fl_neg NInf = PInf"
| "fl_neg (Fin a) = Fin (- a)"

definition fl_sub :: "fl \<Rightarrow> fl \<Rightarrow> fl" where
  "fl_sub a b = fl_add a (fl_neg b)"

fun fl_div :: "fl \<Rightarrow> fl \<Rightarrow> fl" where
  "fl_div NaN _ = NaN"
| "fl_div _ NaN = NaN"
| "fl_div (Fin a) (Fin b) =
     (if b = 0 then (if a = 0 then NaN else if a > 0 then PInf else NInf)
      else Fin (a / b))"
| "fl_div (Fin a) _ = Fin 0"
| "fl_div PInf (Fin b) = (if b \<ge> 0 then PInf else NInf)"
| "fl_div NInf (Fin b) = (if b \<ge> 0 then NInf else PInf)"
| "fl_div _ _ = NaN"

text \<open>\<open>Series.diff()\<close>: the first row has no predecessor and is NaN (\<open>None\<close>).\<close>

definition diff :: "real list \<Rightarrow> real option list" where
  "diff xs = map (\<lambda>i. if i = 0 then None else Some (xs ! i - xs ! (i - 1))) [0..<length xs]"

text \<open>
  \<open>delta.where(delta > 0, 0)\<close> and \<open>-delta.where(delta < 0, 0)\<close>: a row is kept where
  the comparison holds and replaced by 0 elsewhere; a comparison with NaN is false.
\<close>

definition gain_part :: "real option \<Rightarrow> real" where
  "gain_part d = (case d of None \<Rightarrow> 0 | Some x \<Rightarrow> if x > 0 then x else 0)"

definition loss_part :: "real option \<Rightarrow> real" where
  "loss_part d = - (case d of None \<Rightarrow> 0 | Some x \<Rightarrow> if x < 0 then x else 0)"

text \<open>
  \<open>Series.rolling(window=w).mean()\<close> on NaN-free rows (pandas library code): NaN until
  \<open>w\<close> rows are available, then the mean of the last \<open>w\<close> rows; a negative window is
  refused and an empty one has no mean.
\<close>

definition rolling_mean :: "int \<Rightarrow> real list \<Rightarrow> py_error + real option list" where
  "rolling_mean w xs =
     (if w < 0 then Inl ValueError
      else Inr (map (\<lambda>i. if w = 0 \<or> Suc i < nat w then None
                         else Some (sum_list (take (nat w) (drop (Suc i - nat w) xs)) / real (nat w)))
                    [0..<length xs]))"

definition rsi_gain :: "real list \<Rightarrow> int \<Rightarrow> py_error + real option list" where
  "rsi_gain closes period = rolling_mean period (map gain_part (diff closes))"

definition rsi_loss :: "real list \<Rightarrow> int \<Rightarrow> py_error + real option list" where
  "rsi_loss closes period = rolling_mean period (map loss_part (diff closes))"

definition fl_of :: "real option \<Rightarrow> fl" where
  "fl_of x = (case x of None \<Rightarrow> NaN | Some v \<Rightarrow> Fin v)"

definition rsi_of :: "real option \<Rightarrow> real option \<Rightarrow> fl" where
  "rsi_of gain loss =
     (let rs = fl_div (fl_of gain) (fl_of loss)
      in fl_sub (Fin 100) (fl_div (Fin 100) (fl_add (Fin 1) rs)))"

definition add_rsi :: "real list \<Rightarrow> int \<Rightarrow> py_error + fl list" where
  "add_rsi closes period =
     (case rsi_gain closes period of
        Inl e \<Rightarrow> Inl e
      | Inr gain \<Rightarrow>
          (case rsi_loss closes period of
             Inl e \<Rightarrow> Inl e
           | Inr loss \<Rightarrow> Inr (map2 rsi_of gain loss)))"

text \<open>The closes 1, 2, ..., 15.\<close>

definition rising15 :: "real list" where
  "rising15 = map real [1..<16]"

section \<open>The risk gate and the order path (trading\_api.py, kis\_broker.py, database.py)\<close>

text \<open>
  A scalar of a broker JSON payload as the sources read it, through \<open>x or 0\<close> and
  \<open>float(...)\<close>: either falsy (absent, \<open>None\<close>, \<open>""\<close>, \<open>0\<close>) or truthy, and then
  \<open>float\<close> either converts it (\<open>Some\<close>) or raises \<open>TypeError\<close>/\<open>ValueError\<close>
  (\<open>None\<close>).
\<close>

datatype pyval = Falsy | Truthy "real option"

text \<open>\<open>float(x or 0)\<close>; \<open>None\<close> when the conversion raises.\<close>

definition float_or0 :: "pyval \<Rightarrow> real option" where
  "float_or0 x = (case x of Falsy \<Rightarrow> Some 0 | Truthy r \<Rightarrow> r)"

text \<open>\<open>a or b\<close>.\<close>

definition py_or :: "pyval \<Rightarrow> pyval \<Rightarrow> pyval" where
  "py_or a b = (case a of Falsy \<Rightarrow> b | Truthy r \<Rightarrow> a)"

text \<open>The balance payload of the broker: holdings in \<open>output1\<close>, summaries in \<open>output2\<close>.\<close>

record holding =
  pdno :: "string option"
  evlu_amt :: pyval
  hldg_qty :: pyval
  ord_psbl_qty :: pyval
  prpr :: pyval

record account_summary =
  dnca_tot_amt :: pyval
  nass_amt :: pyval

record balance =
  output1 :: "holding list"
  output2 :: "account_summary list"

text \<open>
  The order payload of the broker. \<open>JsRaw\<close> is the dictionary \<open>{"raw": text}\<close> that
  \<open>place_cash_order\<close> builds when the body is not JSON.
\<close>

record kis_output =
  PDNAME :: "string option"
  ORD_UNPR :: pyval
  ORD_QTY :: pyval

text \<open>The field \<open>order_output\<close> is the key \<open>output\<close> of the payload.\<close>

record kis_response =
  rt_cd :: "string option"
  order_output :: "kis_output option"

datatype kis_js = Js kis_response | JsRaw string

definition js_rt_cd :: "kis_js \<Rightarrow> string option" where
  "js_rt_cd js = (case js of Js r \<Rightarrow> rt_cd r | JsRaw t \<Rightarrow> None)"

definition js_output :: "kis_js \<Rightarrow> kis_output option" where
  "js_output js = (case js of Js r \<Rightarrow> order_output r | JsRaw t \<Rightarrow> None)"

text \<open>
  The tables of database.py. A NULL \<open>stock_code\<close> of a risk setting never matches the
  \<open>IN\<close> filter, and \<open>created_at\<close> is filled by the server default, so both are
  modelled without NULL. \<open>raw_response\<close> holds \<open>json.dumps(res)\<close>, modelled by the
  payload it serialises.
\<close>

record RiskSetting =
  rs_stock_code :: string
  rs_max_position_shares :: "int option"
  rs_max_weight_pct :: "real option"
  rs_max_daily_buy_amount :: "real option"
  rs_active :: bool

record TradeOrder =
  to_created_at :: int
  to_stock_code :: string
  to_stock_name :: "string option"
  to_side :: string
  to_quantity :: int
  to_order_price :: "real option"
  to_order_amount :: "real option"
  to_status :: string
  to_raw_response :: kis_js

text \<open>The three process defaults, read from the environment at import time.\<close>

record risk_defaults =
  DEFAULT_MAX_POSITION_SHARES :: int
  DEFAULT_MAX_WEIGHT_PCT :: real
  DEFAULT_MAX_DAILY_BUY_AMOUNT :: real

record risk_limits =
  max_shares :: int
  max_weight_pct :: real
  max_daily_buy_amount :: real

text \<open>
  \<open>ORDER BY stock_code DESC ... first()\<close>: the row with the greatest code, strings
  compared character by character by code point. Digits sort before letters in this
  order, as they do in the collations PostgreSQL offers. The column is unique, so ties
  do not arise; the model keeps the earlier row.
\<close>

fun first_by_code_desc :: "RiskSetting list \<Rightarrow> RiskSetting option" where
  "first_by_code_desc [] = None"
| "first_by_code_desc (r # rs) =
     (case first_by_code_desc rs of
        None \<Rightarrow> Some r
      | Some r' \<Rightarrow> if rs_stock_code r < rs_stock_code r' then Some r' else Some r)"

definition find_setting :: "RiskSetting list \<Rightarrow> string \<Rightarrow> RiskSetting option" where
  "find_setting table stock_code =
     first_by_code_desc
       (filter (\<lambda>r. rs_active r \<and> rs_stock_code r \<in> {stock_code, ''ALL''}) table)"

definition resolve_limits :: "risk_defaults \<Rightarrow> RiskSetting option \<Rightarrow> risk_limits" where
  "resolve_limits d setting =
     (case setting of
        None \<Rightarrow> \<lparr>max_shares = DEFAULT_MAX_POSITION_SHARES d,
                  max_weight_pct = DEFAULT_MAX_WEIGHT_PCT d,
                  max_daily_buy_amount = DEFAULT_MAX_DAILY_BUY_AMOUNT d\<rparr>
      | Some s \<Rightarrow>
          \<lparr>max_shares = (case rs_max_position_shares s of
                           None \<Rightarrow> DEFAULT_MAX_POSITION_SHARES d | Some v \<Rightarrow> v),
           max_weight_pct = (case rs_max_weight_pct s of
                               None \<Rightarrow> DEFAULT_MAX_WEIGHT_PCT d | Some v \<Rightarrow> v),
           max_daily_buy_amount = (case rs_max_daily_buy_amount s of
                                     None \<Rightarrow> DEFAULT_MAX_DAILY_BUY_AMOUNT d | Some v \<Rightarrow> v)\<rparr>)"

text \<open>The variables the loop over the holdings maintains.\<close>

record holdings_scan =
  total_eval :: real
  current_qty :: real
  sellable :: real
  current_eval :: real
  current_price :: "real option"

definition scan_init :: holdings_scan where
  "scan_init = \<lparr>total_eval = 0, current_qty = 0, sellable = 0, current_eval = 0,
                current_price = None\<rparr>"

definition holding_step :: "string \<Rightarrow> holding \<Rightarrow> holdings_scan \<Rightarrow> holdings_scan" where
  "holding_step stock_code h st =
     (let ev = (case float_or0 (evlu_amt h) of None \<Rightarrow> 0 | Some v \<Rightarrow> v);
          st1 = st\<lparr>total_eval := total_eval st + ev\<rparr>
      in if pdno h = Some stock_code
         then (let qty = (case float_or0 (hldg_qty h) of None \<Rightarrow> 0 | Some v \<Rightarrow> v)
               in st1\<lparr>current_qty := qty,
                      sellable := (case float_or0 (ord_psbl_qty h) of
                                     None \<Rightarrow> qty | Some v \<Rightarrow> v),
                      current_eval := ev,
                      current_price := float_or0 (prpr h)\<rparr>)
         else st1)"

definition scan_holdings :: "string \<Rightarrow> holding list \<Rightarrow> holdings_scan" where
  "scan_holdings stock_code holdings = fold (holding_step stock_code) holdings scan_init"

definition cash_of :: "account_summary list \<Rightarrow> real" where
  "cash_of summary_list =
     (case summary_list of
        [] \<Rightarrow> 0
      | s # rest \<Rightarrow>
          (case float_or0 (py_or (dnca_tot_amt s) (nass_amt s)) of None \<Rightarrow> 0 | Some v \<Rightarrow> v))"

text \<open>
  Today's spend as the daily cap reads it: the query filters on the time, the side and
  the status of an order, and on nothing else.
\<close>

definition spent_today :: "int \<Rightarrow> TradeOrder list \<Rightarrow> real" where
  "spent_today start orders =
     sum_list (map (\<lambda>row. or_zero (to_order_amount row))
       (filter (\<lambda>row. start \<le> to_created_at row \<and> to_side row = ''BUY'' \<and>
                       to_status row = ''OK'')
          orders))"

definition est_amount_of :: "real option \<Rightarrow> int \<Rightarrow> real" where
  "est_amount_of price quantity =
     (let est_price = or_zero price
      in if est_price > 0 then est_price * real_of_int quantity else 0)"

datatype risk_reject =
    DailyBuyAmountExceeded real real
  | PositionSharesExceeded int real
  | WeightExceeded real real
  | SellQuantityExceeded real

text \<open>
  What a caller of the order path can get instead of a result: the two
  \<open>HTTPException(400)\<close> (risk limit, invalid side), the \<open>HTTPException(500)\<close> that
  wraps a broker failure, or an exception that is not caught.
\<close>

datatype api_error = RiskLimit risk_reject | InvalidSide | BrokerFailure | PyRaise py_error

definition daily_cap_check :: "risk_limits \<Rightarrow> int \<Rightarrow> TradeOrder list \<Rightarrow> holdings_scan \<Rightarrow>
    int \<Rightarrow> api_error + unit" where
  "daily_cap_check lims start orders sc quantity =
     (if max_daily_buy_amount lims > 0
      then (let spent = spent_today start orders;
                est_amount = est_amount_of (current_price sc) quantity
            in if est_amount > 0 \<and> spent + est_amount > max_daily_buy_amount lims + eps6
               then Inl (RiskLimit (DailyBuyAmountExceeded
                      (max 0 (max_daily_buy_amount lims - spent)) (max_daily_buy_amount lims)))
               else Inr ())
      else Inr ())"

definition position_cap_check :: "risk_limits \<Rightarrow> holdings_scan \<Rightarrow> int \<Rightarrow> api_error + unit" where
  "position_cap_check lims sc quantity =
     (if current_qty sc + real_of_int quantity > real_of_int (max_shares lims)
      then Inl (RiskLimit (PositionSharesExceeded (max_shares lims) (current_qty sc)))
      else Inr ())"

definition weight_cap_check :: "risk_limits \<Rightarrow> holdings_scan \<Rightarrow> real \<Rightarrow> int \<Rightarrow>
    api_error + unit" where
  "weight_cap_check lims sc total_value quantity =
     (if total_value > 0
      then (let price = (if (case current_price sc of None \<Rightarrow> True | Some p \<Rightarrow> p \<le> 0)
                            \<and> current_qty sc > 0
                         then Some (current_eval sc / max (current_qty sc) 1)
                         else current_price sc)
            in case price of
                 None \<Rightarrow> Inr ()
               | Some p \<Rightarrow>
                   if p > 0
                   then (let projected_stock_value = current_eval sc + p * real_of_int quantity;
                             projected_total_value =
                               total_value - current_eval sc + projected_stock_value
                         in if projected_total_value > 0
                            then (let weight = projected_stock_value / projected_total_value
                                  in if weight > max_weight_pct lims + 1 / 1000000000
                                     then Inl (RiskLimit (WeightExceeded weight (max_weight_pct lims)))
                                     else Inr ())
                            else Inl (PyRaise UnboundLocalError))
                   else Inr ())
      else Inr ())"

text \<open>
  \<open>check_risk_limit\<close>. The first argument is what \<open>broker.get_balance()\<close> does: it
  returns the payload or raises. \<open>today_start\<close> is midnight of the current UTC day.
\<close>

definition check_risk_limit :: "risk_defaults \<Rightarrow> RiskSetting list \<Rightarrow> TradeOrder list \<Rightarrow> int \<Rightarrow>
    py_error + balance \<Rightarrow> string \<Rightarrow> string \<Rightarrow> int \<Rightarrow> api_error + unit" where
  "check_risk_limit d settings orders today_start get_balance stock_code side quantity =
     (case get_balance of
        Inl e \<Rightarrow> Inl (PyRaise e)
      | Inr bal \<Rightarrow>
          (let lims = resolve_limits d (find_setting settings stock_code);
               sc = scan_holdings stock_code (output1 bal);
               total_value = total_eval sc + cash_of (output2 bal)
           in if side = ''BUY''
              then (case daily_cap_check lims today_start orders sc quantity of
                      Inl e \<Rightarrow> Inl e
                    | Inr u \<Rightarrow>
                        (case position_cap_check lims sc quantity of
                           Inl e \<Rightarrow> Inl e
                         | Inr u \<Rightarrow> weight_cap_check lims sc total_value quantity))
              else if real_of_int quantity > sellable sc
                   then Inl (RiskLimit (SellQuantityExceeded (sellable sc)))
                   else Inr ()))"

text \<open>The daily cap as the specification words it: only the requested instrument counts.\<close>

definition spec_spent_today :: "int \<Rightarrow> TradeOrder list \<Rightarrow> string \<Rightarrow> real" where
  "spec_spent_today start orders stock_code =
     sum_list (map (\<lambda>row. or_zero (to_order_amount row))
       (filter (\<lambda>row. start \<le> to_created_at row \<and> to_side row = ''BUY'' \<and>
                       to_status row = ''OK'' \<and> to_stock_code row = stock_code)
          orders))"

definition spec_daily_cap_rejects :: "real \<Rightarrow> int \<Rightarrow> TradeOrder list \<Rightarrow> string \<Rightarrow>
    real option \<Rightarrow> int \<Rightarrow> bool" where
  "spec_daily_cap_rejects cap start orders stock_code price quantity \<longleftrightarrow>
     spec_spent_today start orders stock_code + or_zero price * real_of_int quantity > cap"

text \<open>
  What the outside world does with an order request: the token request fails, the POST
  fails in transport, or an HTTP response arrives whose body is a JSON object, other
  JSON, or not JSON at all.
\<close>

datatype http_body = JsonObject kis_response | JsonOther | NotJson string

datatype http_outcome = NoToken | NoTransport | Response int http_body

record KISConfig =
  tr_id_order_cash_buy :: string
  tr_id_order_cash_sell :: string

definition place_cash_order :: "KISConfig \<Rightarrow> http_outcome \<Rightarrow> string \<Rightarrow> string \<Rightarrow> int \<Rightarrow>
    py_error + kis_js" where
  "place_cash_order cfg world side stock_code quantity =
     (if side \<notin> {''BUY'', ''SELL''} then Inl ValueError
      else if quantity \<le> 0 then Inl ValueError
      else if (if side = ''BUY'' then tr_id_order_cash_buy cfg
               else tr_id_order_cash_sell cfg) = []
      then Inl ValueError
      else case world of
             NoToken \<Rightarrow> Inl RuntimeError
           | NoTransport \<Rightarrow> Inl ConnectionError
           | Response status body \<Rightarrow>
               if status \<noteq> 200 then Inl RuntimeError
               else (case body of
                       JsonOther \<Rightarrow> Inl AttributeError
                     | JsonObject r \<Rightarrow>
                         if rt_cd r \<notin> {None, Some ''0''} then Inl RuntimeError else Inr (Js r)
                     | NotJson t \<Rightarrow> Inr (JsRaw t)))"

definition buy_market :: "KISConfig \<Rightarrow> http_outcome \<Rightarrow> string \<Rightarrow> int \<Rightarrow> py_error + kis_js" where
  "buy_market cfg world stock_code quantity = place_cash_order cfg world ''BUY'' stock_code quantity"

definition sell_market :: "KISConfig \<Rightarrow> http_outcome \<Rightarrow> string \<Rightarrow> int \<Rightarrow> py_error + kis_js" where
  "sell_market cfg world stock_code quantity = place_cash_order cfg world ''SELL'' stock_code quantity"

text \<open>\<open>str.upper\<close> on the ASCII letters.\<close>

definition char_upper :: "char \<Rightarrow> char" where
  "char_upper c =
     (if CHR ''a'' \<le> c \<and> c \<le> CHR ''z'' then char_of (of_char c - (32::nat)) else c)"

definition str_upper :: "string \<Rightarrow> string" where
  "str_upper s = map char_upper s"

text \<open>
  The environment of one call of the order path: the process defaults, the broker
  configuration, the risk settings, what the broker answers to the balance query and
  to the order, whether the audit commit succeeds, midnight of the UTC day and the
  time the server stamps on the row.
\<close>

record order_env =
  oe_defaults :: risk_defaults
  oe_config :: KISConfig
  oe_settings :: "RiskSetting list"
  oe_balance :: "py_error + balance"
  oe_order :: http_outcome
  oe_commit_ok :: bool
  oe_today_start :: int
  oe_now :: int

text \<open>The audit row built after the broker has returned \<open>res\<close>.\<close>

definition order_record :: "int \<Rightarrow> string \<Rightarrow> string \<Rightarrow> int \<Rightarrow> kis_js \<Rightarrow> TradeOrder" where
  "order_record now stock_code side_up quantity res =
     (let out = js_output res;
          stock_name = (case out of None \<Rightarrow> None | Some d \<Rightarrow> PDNAME d);
          order_price = (case out of None \<Rightarrow> None | Some d \<Rightarrow> float_or0 (ORD_UNPR d));
          order_amount =
            (case out of
               None \<Rightarrow> None
             | Some d \<Rightarrow>
                 (case float_or0 (ORD_UNPR d) of
                    None \<Rightarrow> None
                  | Some p \<Rightarrow>
                      (case ORD_QTY d of
                         Falsy \<Rightarrow> Some (p * real_of_int quantity)
                       | Truthy None \<Rightarrow> None
                       | Truthy (Some q) \<Rightarrow> Some (p * q))))
      in \<lparr>to_created_at = now, to_stock_code = stock_code, to_stock_name = stock_name,
          to_side = side_up, to_quantity = quantity, to_order_price = order_price,
          to_order_amount = order_amount,
          to_status = (if js_rt_cd res \<in> {None, Some ''0''} then ''OK'' else ''ERROR''),
          to_raw_response = res\<rparr>)"

text \<open>
  \<open>_place_market_order_internal\<close>: the result or the error the caller sees, and the
  table of orders afterwards. A failed commit is rolled back and swallowed.
\<close>

definition place_market_order_internal :: "order_env \<Rightarrow> TradeOrder list \<Rightarrow> string \<Rightarrow> string \<Rightarrow>
    int \<Rightarrow> (api_error + kis_js) \<times> TradeOrder list" where
  "place_market_order_internal env orders stock_code side quantity =
     (let side_up = str_upper side
      in if side_up \<notin> {''BUY'', ''SELL''} then (Inl InvalidSide, orders)
         else case check_risk_limit (oe_defaults env) (oe_settings env) orders
                     (oe_today_start env) (oe_balance env) stock_code side_up quantity of
                Inl e \<Rightarrow> (Inl e, orders)
              | Inr u \<Rightarrow>
                  (case (if side_up = ''BUY''
                         then buy_market (oe_config env) (oe_order env) stock_code quantity
                         else sell_market (oe_config env) (oe_order env) stock_code quantity) of
                     Inl e \<Rightarrow> (Inl BrokerFailure, orders)
                   | Inr res \<Rightarrow>
                       (Inr res,
                        if oe_commit_ok env
                        then orders @ [order_record (oe_now env) stock_code side_up quantity res]
                        else orders)))"

subsection \<open>Concrete inputs\<close>

text \<open>
  The defaults of the source when the environment sets none; an account with cash only,
  one holding one share of \<open>005930\<close> at 200, and one holding another instrument;
  an earlier BUY of today for another instrument and one for \<open>005930\<close>; settings
  tables; and a call in which the broker answers the order with business code 1.
\<close>

definition std_defaults :: risk_defaults where
  "std_defaults = \<lparr>DEFAULT_MAX_POSITION_SHARES = 10, DEFAULT_MAX_WEIGHT_PCT = 1 / 2,
                    DEFAULT_MAX_DAILY_BUY_AMOUNT = 0\<rparr>"

definition cash_balance :: balance where
  "cash_balance = \<lparr>output1 = [],
                    output2 = [\<lparr>dnca_tot_amt = Truthy (Some 1000000), nass_amt = Falsy\<rparr>]\<rparr>"

definition held_balance :: balance where
  "held_balance =
     \<lparr>output1 = [\<lparr>pdno = Some ''005930'', evlu_amt = Truthy (Some 200),
                   hldg_qty = Truthy (Some 1), ord_psbl_qty = Truthy (Some 1),
                   prpr = Truthy (Some 200)\<rparr>],
      output2 = [\<lparr>dnca_tot_amt = Truthy (Some 1000000), nass_amt = Falsy\<rparr>]\<rparr>"

definition other_buy :: TradeOrder where
  "other_buy = \<lparr>to_created_at = 50, to_stock_code = ''000660'', to_stock_name = None,
                 to_side = ''BUY'', to_quantity = 9, to_order_price = Some 100,
                 to_order_amount = Some 900, to_status = ''OK'',
                 to_raw_response = JsRaw []\<rparr>"

definition cap_1000 :: "RiskSetting list" where
  "cap_1000 = [\<lparr>rs_stock_code = ''ALL'', rs_max_position_shares = None,
                 rs_max_weight_pct = None, rs_max_daily_buy_amount = Some 1000,
                 rs_active = True\<rparr>]"

definition two_settings :: "RiskSetting list" where
  "two_settings =
     [\<lparr>rs_stock_code = ''005930'', rs_max_position_shares = Some 5,
       rs_max_weight_pct = Some (1 / 10), rs_max_daily_buy_amount = Some 1000,
       rs_active = True\<rparr>,
      \<lparr>rs_stock_code = ''ALL'', rs_max_position_shares = Some 100,
       rs_max_weight_pct = Some 1, rs_max_daily_buy_amount = Some 0,
       rs_active = True\<rparr>]"

definition rejecting_env :: order_env where
  "rejecting_env =
     \<lparr>oe_defaults = std_defaults,
      oe_config = \<lparr>tr_id_order_cash_buy = ''VTTC0802U'', tr_id_order_cash_sell = ''VTTC0801U''\<rparr>,
      oe_settings = [],
      oe_balance = Inr cash_balance,
      oe_order = Response 200 (JsonObject \<lparr>rt_cd = Some ''1'', order_output = None\<rparr>),
      oe_commit_ok = True,
      oe_today_start = 0,
      oe_now = 100\<rparr>"

definition other_held_balance :: balance where
  "other_held_balance =
     \<lparr>output1 = [\<lparr>pdno = Some ''000660'', evlu_amt = Truthy (Some 900),
                   hldg_qty = Truthy (Some 9), ord_psbl_qty = Truthy (Some 9),
                   prpr = Truthy (Some 100)\<rparr>],
      output2 = [\<lparr>dnca_tot_amt = Truthy (Some 1000000), nass_amt = Falsy\<rparr>]\<rparr>"

definition big_buy :: TradeOrder where
  "big_buy = other_buy\<lparr>to_stock_code := ''005930'', to_order_amount := Some 5000\<rparr>"

section \<open>Properties of the simulation\<close>

lemma py_slice_length:
  "0 \<le> a \<Longrightarrow> a \<le> b \<Longrightarrow> b \<le> int (length xs) \<Longrightarrow> length (py_slice xs a b) = nat (b - a)"
  by (auto simp: py_slice_def slice_bound_def Let_def)

lemma get_observation_window:
  assumes "0 \<le> window_size (config env)"
      and "window_size (config env) \<le> current_step env"
      and "current_step env \<le> int (length (features env))"
      and "equity_start env \<noteq> 0"
  shows "\<exists>obs. get_observation env = Inr obs"
proof -
  have "length (py_slice (features env) (current_step env - window_size (config env)) (current_step env))
        = nat (window_size (config env))"
    using assms py_slice_length [of "current_step env - window_size (config env)" "current_step env" "features env"]
    by simp
  then show ?thesis
    using assms by (simp add: get_observation_def Let_def)
qed

lemma py_index_prev:
  assumes "0 \<le> i" "i < int (length xs)"
  shows "\<exists>v. py_index xs (i - 1) = Inr v"
  using assms by (auto simp: py_index_def)

lemma py_index_curr:
  assumes "0 \<le> i" "i < int (length xs)"
  shows "py_index xs i = Inr (xs ! nat i)"
  using assms by (simp add: py_index_def)

lemma step_running:
  assumes "running env"
      and pp: "py_index (prices env) (current_step env - 1) = Inr prev_price"
      and pc: "py_index (prices env) (current_step env) = Inr curr_price"
  shows "\<exists>obs. step env (a # rest) =
           Inr (env\<lparr>position := target_pos_of env a,
                    equity := max (equity env + pnl_of env (target_pos_of env a) (price_return_of prev_price curr_price)) eps6,
                    current_step := current_step env + 1\<rparr>,
                \<lparr>sr_obs = obs,
                 sr_reward = reward_scale (config env) *
                    ((max (equity env + pnl_of env (target_pos_of env a) (price_return_of prev_price curr_price)) eps6 - equity env)
                      / max (equity env) eps6),
                 sr_terminated = (current_step env + 1 \<ge> n_steps env - 1),
                 sr_truncated = False,
                 sr_info = \<lparr>si_equity = max (equity env + pnl_of env (target_pos_of env a) (price_return_of prev_price curr_price)) eps6,
                            si_position = target_pos_of env a,
                            si_price_return = price_return_of prev_price curr_price,
                            si_step_return = (max (equity env + pnl_of env (target_pos_of env a) (price_return_of prev_price curr_price)) eps6 - equity env)
                      / max (equity env) eps6\<rparr>\<rparr>)"
proof -
  let ?env' = "env\<lparr>position := target_pos_of env a,
                    equity := max (equity env + pnl_of env (target_pos_of env a) (price_return_of prev_price curr_price)) eps6,
                    current_step := current_step env + 1\<rparr>"
  have "\<exists>obs. get_observation ?env' = Inr obs"
    using assms(1) by (intro get_observation_window) (simp_all add: running_def)
  then obtain obs where "get_observation ?env' = Inr obs" ..
  then show ?thesis
    using pp pc by (simp add: step_def py_index_def Let_def n_steps_def)
qed

text \<open>
  Claim C5. In the RUNNING state, with clipped target position \<open>p\<close>, previous
  position \<open>q\<close>, previous equity \<open>E\<close> and price return \<open>r\<close> of the two
  bars at the cursor, the step succeeds, its trade cost is \<open>E * |p - q| * rate\<close>,
  its pnl is \<open>E * p * r\<close> minus that cost, and the new equity is the larger of
  \<open>E + pnl\<close> and \<open>1e-6\<close>. The claim's \<open>E > 0\<close> is not needed.
\<close>

theorem step_equity_update:
  assumes "running env"
  shows "\<exists>prev_price curr_price env' res.
           py_index (prices env) (current_step env - 1) = Inr prev_price \<and>
           py_index (prices env) (current_step env) = Inr curr_price \<and>
           (let p = target_pos_of env a; q = position env; E = equity env;
                r = price_return_of prev_price curr_price;
                cost = E * \<bar>p - q\<bar> * transaction_cost (config env);
                pnl = E * p * r - cost
            in trade_cost_of env p = cost \<and> pnl_of env p r = pnl \<and>
               step env (a # rest) = Inr (env', res) \<and>
               position env' = p \<and>
               equity env' = max (E + pnl) eps6 \<and>
               si_equity (sr_info res) = max (E + pnl) eps6)"
proof -
  have cs: "0 \<le> current_step env" "current_step env < int (length (prices env))"
    using assms by (simp_all add: running_def)
  obtain prev_price where pp: "py_index (prices env) (current_step env - 1) = Inr prev_price"
    using py_index_prev [OF cs] by blast
  obtain curr_price where pc: "py_index (prices env) (current_step env) = Inr curr_price"
    using py_index_curr [OF cs] by blast
  obtain obs where "step env (a # rest) =
           Inr (env\<lparr>position := target_pos_of env a,
                    equity := max (equity env + pnl_of env (target_pos_of env a) (price_return_of prev_price curr_price)) eps6,
                    current_step := current_step env + 1\<rparr>,
                \<lparr>sr_obs = obs,
                 sr_reward = reward_scale (config env) *
                    ((max (equity env + pnl_of env (target_pos_of env a) (price_return_of prev_price curr_price)) eps6 - equity env)
                      / max (equity env) eps6),
                 sr_terminated = (current_step env + 1 \<ge> n_steps env - 1),
                 sr_truncated = False,
                 sr_info = \<lparr>si_equity = max (equity env + pnl_of env (target_pos_of env a) (price_return_of prev_price curr_price)) eps6,
                            si_position = target_pos_of env a,
                            si_price_return = price_return_of prev_price curr_price,
                            si_step_return = (max (equity env + pnl_of env (target_pos_of env a) (price_return_of prev_price curr_price)) eps6 - equity env)
                      / max (equity env) eps6\<rparr>\<rparr>)"
    using step_running [OF assms pp pc, of a rest] by blast
  then show ?thesis
    using pp pc by (simp add: Let_def pnl_of_def trade_cost_of_def)
qed

lemma c5_env_running: "running c5_env"
  by (simp add: running_def c5_env_def)

text \<open>
  Witness for C5: equity 1000, target 0.5 from position 0, rate 0.001, prices 100 to
  110: cost 0.5, pnl 49.5, new equity 1049.5.
\<close>

theorem step_equity_update_witness:
  "running c5_env \<and>
   (\<exists>env' res. step c5_env [1 / 2] = Inr (env', res) \<and> equity env' = 2099 / 2)"
proof -
  from step_equity_update [OF c5_env_running, of "1 / 2" "[]"]
  obtain prev_price curr_price env' res where
    pp: "py_index (prices c5_env) (current_step c5_env - 1) = Inr prev_price" and
    pc: "py_index (prices c5_env) (current_step c5_env) = Inr curr_price" and
    st: "step c5_env [1 / 2] = Inr (env', res)" and
    eq: "equity env' = max (equity c5_env + (equity c5_env * target_pos_of c5_env (1 / 2) * price_return_of prev_price curr_price
            - equity c5_env * \<bar>target_pos_of c5_env (1 / 2) - position c5_env\<bar> * transaction_cost (config c5_env))) eps6"
    by (auto simp: Let_def)
  have "prev_price = 100" "curr_price = 110"
    using pp pc by (simp_all add: py_index_def c5_env_def)
  then have "equity env' = 2099 / 2"
    using eq by (simp add: c5_env_def target_pos_of_def np_clip_def price_return_of_def eps6_def)
  then show ?thesis using st c5_env_running by blast
qed

text \<open>
  Claim C9. In the RUNNING state, when the previous bar's price is at most 0 the step
  succeeds with price return 0: the quotient by the previous price is not evaluated,
  the pnl is minus the trade cost, and the only divisor left, \<open>max E 1e-6\<close>, is
  positive, so equity, step return and reward are the finite values given.
\<close>

theorem step_nonpositive_prev_price:
  assumes "running env"
      and "py_index (prices env) (current_step env - 1) = Inr prev_price"
      and "prev_price \<le> 0"
  shows "\<exists>env' res.
           step env (a # rest) = Inr (env', res) \<and>
           si_price_return (sr_info res) = 0 \<and>
           equity env' = max (equity env - trade_cost_of env (target_pos_of env a)) eps6 \<and>
           si_equity (sr_info res) = equity env' \<and>
           0 < max (equity env) eps6 \<and>
           si_step_return (sr_info res) = (equity env' - equity env) / max (equity env) eps6 \<and>
           sr_reward res = reward_scale (config env) * si_step_return (sr_info res)"
proof -
  have cs: "0 \<le> current_step env" "current_step env < int (length (prices env))"
    using assms(1) by (simp_all add: running_def)
  obtain curr_price where pc: "py_index (prices env) (current_step env) = Inr curr_price"
    using py_index_curr [OF cs] by blast
  have r0: "price_return_of prev_price curr_price = 0"
    using assms(3) by (simp add: price_return_of_def)
  have pos: "0 < max (equity env) eps6"
    by (simp add: eps6_def max_def)
  from step_running [OF assms(1) assms(2) pc, of a rest]
  show ?thesis
    using pos by (auto simp: r0 pnl_of_def)
qed

lemma c9_env_running: "running c9_env"
  by (simp add: running_def c9_env_def)

text \<open>Witness for C9: the previous bar's price is 0.\<close>

theorem step_nonpositive_prev_price_witness:
  "running c9_env \<and> py_index (prices c9_env) (current_step c9_env - 1) = Inr 0 \<and>
   (0::real) \<le> 0 \<and>
   (\<exists>env' res. step c9_env [1] = Inr (env', res) \<and>
      si_price_return (sr_info res) = 0 \<and> equity env' = 999 \<and>
      sr_reward res = - (1 / 500))"
proof -
  have pp: "py_index (prices c9_env) (current_step c9_env - 1) = Inr 0"
    by (simp add: py_index_def c9_env_def)
  from step_nonpositive_prev_price [OF c9_env_running pp, of 1 "[]"]
  obtain env' res where
    st: "step c9_env [1] = Inr (env', res)" and
    r: "si_price_return (sr_info res) = 0" and
    eq: "equity env' = max (equity c9_env - trade_cost_of c9_env (target_pos_of c9_env 1)) eps6" and
    sr: "si_step_return (sr_info res) = (equity env' - equity c9_env) / max (equity c9_env) eps6" and
    rw: "sr_reward res = reward_scale (config c9_env) * si_step_return (sr_info res)"
    by auto
  have e: "equity env' = 999"
    using eq by (simp add: c9_env_def trade_cost_of_def target_pos_of_def np_clip_def eps6_def)
  have "sr_reward res = - (1 / 500)"
    using rw sr e by (simp add: c9_env_def eps6_def)
  then show ?thesis using st r e pp c9_env_running by auto
qed

lemma step_flat:
  assumes "running env"
      and "transaction_cost (config env) = 0"
      and "target_pos_of env a = 0"
      and "eps6 \<le> equity env"
  shows "\<exists>res. step env (a # rest) =
            Inr (env\<lparr>position := 0, equity := equity env,
                     current_step := current_step env + 1\<rparr>, res) \<and>
            si_equity (sr_info res) = equity env"
proof -
  have cs: "0 \<le> current_step env" "current_step env < int (length (prices env))"
    using assms(1) by (simp_all add: running_def)
  obtain prev_price where pp: "py_index (prices env) (current_step env - 1) = Inr prev_price"
    using py_index_prev [OF cs] by blast
  obtain curr_price where pc: "py_index (prices env) (current_step env) = Inr curr_price"
    using py_index_curr [OF cs] by blast
  have "pnl_of env 0 (price_return_of prev_price curr_price) = 0"
    using assms(2) by (simp add: pnl_of_def trade_cost_of_def)
  then have "max (equity env + pnl_of env (target_pos_of env a) (price_return_of prev_price curr_price)) eps6
             = equity env"
    using assms(3,4) by (simp add: max_def)
  with step_running [OF assms(1) pp pc, of a rest] show ?thesis
    using assms(3) by auto
qed

lemma run_steps_flat:
  assumes "length (prices env) = length (features env)"
      and "0 \<le> window_size (config env)"
      and "window_size (config env) \<le> current_step env"
      and "current_step env + int (length actions) \<le> int (length (prices env))"
      and "equity_start env \<noteq> 0"
      and "transaction_cost (config env) = 0"
      and "eps6 \<le> equity env"
      and "\<forall>a \<in> set actions. a \<noteq> [] \<and> target_pos_of env (hd a) = 0"
      and "window_size (config env) + 1 < int (length (features env))"
  shows "\<exists>env'. run_steps env actions = Inr (env', replicate (length actions) (equity env))"
  using assms
proof (induction actions arbitrary: env)
  case Nil
  then show ?case by simp
next
  case (Cons act actions)
  obtain a rest where act: "act = a # rest"
    using Cons.prems(8) by (cases act) auto
  have tp: "target_pos_of env a = 0"
    using Cons.prems(8) act by simp
  have run: "running env"
    using Cons.prems by (simp add: running_def)
  let ?env1 = "env\<lparr>position := 0, equity := equity env,
                     current_step := current_step env + 1\<rparr>"
  obtain res where st: "step env act = Inr (?env1, res)"
      and se: "si_equity (sr_info res) = equity env"
    using step_flat [OF run Cons.prems(6) tp Cons.prems(7), of rest] act by blast
  have "\<exists>env'. run_steps ?env1 actions = Inr (env', replicate (length actions) (equity ?env1))"
  proof (rule Cons.IH)
    show "\<forall>a \<in> set actions. a \<noteq> [] \<and> target_pos_of ?env1 (hd a) = 0"
      using Cons.prems(8) by (simp add: target_pos_of_def)
  qed (use Cons.prems in simp_all)
  then obtain env' where "run_steps ?env1 actions = Inr (env', replicate (length actions) (equity env))"
    by auto
  then show ?case
    using st se by simp
qed

text \<open>
  Claim C8, as amended. With transaction cost 0, an initial cash of at least
  \<open>1e-6\<close>, and every action clipped to the target position 0, a run of reset
  followed by at most \<open>n_steps - window_size\<close> steps succeeds and reports the
  initial cash as the equity after every step.
\<close>

theorem flat_run_keeps_equity:
  assumes "length (prices env) = length (features env)"
      and "window_size (config env) + 1 < int (length (features env))"
      and "0 \<le> window_size (config env)"
      and "window_size (config env) + int (length actions) \<le> int (length (prices env))"
      and "transaction_cost (config env) = 0"
      and "eps6 \<le> initial_cash (config env)"
      and "\<forall>a \<in> set actions. a \<noteq> [] \<and> target_pos_of env (hd a) = 0"
  shows "\<exists>env'. run env actions =
           Inr (env', replicate (length actions) (initial_cash (config env)))"
proof -
  let ?env0 = "env\<lparr>current_step := window_size (config env),
                      position := 0,
                      cash := initial_cash (config env),
                      equity := initial_cash (config env),
                      equity_start := initial_cash (config env)\<rparr>"
  have nz: "initial_cash (config env) \<noteq> 0"
    using assms(6) by (auto simp: eps6_def)
  have "\<exists>obs. get_observation ?env0 = Inr obs"
    using assms(1-4) nz by (intro get_observation_window) simp_all
  then obtain obs where "get_observation ?env0 = Inr obs" ..
  then have rs: "run env actions = run_steps ?env0 actions"
    by (simp add: run_def reset_def Let_def)
  have "\<exists>env'. run_steps ?env0 actions = Inr (env', replicate (length actions) (equity ?env0))"
  proof (rule run_steps_flat)
    show "\<forall>a \<in> set actions. a \<noteq> [] \<and> target_pos_of ?env0 (hd a) = 0"
      using assms(7) by (simp add: target_pos_of_def)
  qed (use assms nz in simp_all)
  then show ?thesis
    using rs by simp
qed

text \<open>Witness for C8: three steps with action 0 on four bars.\<close>

theorem flat_run_keeps_equity_witness:
  "\<exists>env'. run c8_env [[0], [0], [0]] = Inr (env', [1000, 1000, 1000])"
proof -
  have "\<exists>env'. run c8_env [[0], [0], [0]] =
          Inr (env', replicate (length [[0], [0], [0::real]]) (initial_cash (config c8_env)))"
    by (rule flat_run_keeps_equity)
       (simp_all add: c8_env_def eps6_def target_pos_of_def np_clip_def)
  then show ?thesis
    by (simp add: c8_env_def numeral_3_eq_3)
qed

text \<open>
  Counterexample to C8 as stated: with an initial cash of \<open>1e-7\<close>, no transaction
  cost and action 0, the floor of \<open>step\<close> lifts the equity to \<open>1e-6\<close>.
\<close>

theorem flat_run_tiny_cash_counterexample:
  "transaction_cost (config c8_tiny_env) = 0 \<and>
   target_pos_of c8_tiny_env 0 = 0 \<and>
   initial_cash (config c8_tiny_env) = 1 / 10000000 \<and>
   map_sum id snd (run c8_tiny_env [[0]]) = Inr [1 / 1000000]"
  by (simp add: c8_tiny_env_def c8_env_def run_def reset_def get_observation_def
      py_slice_def slice_bound_def step_def py_index_def target_pos_of_def np_clip_def
      price_return_of_def pnl_of_def trade_cost_of_def eps6_def n_steps_def Let_def)

section \<open>Properties of the performance aggregator\<close>

lemma drawdown_at_append:
  "i < length pre \<Longrightarrow> drawdown_at (pre @ rest) i = drawdown_at pre i"
  by (simp add: drawdown_at_def running_peak_def nth_append)

lemma drawdown_at_0: "vs \<noteq> [] \<Longrightarrow> drawdown_at vs 0 = 0"
  by (cases vs) (simp_all add: drawdown_at_def running_peak_def)

lemma spec_max_drawdown_nonneg:
  assumes "vs \<noteq> []"
  shows "0 \<le> spec_max_drawdown vs"
proof -
  have "drawdown_at vs 0 \<in> drawdown_at vs ` {..<length vs}"
    using assms by auto
  then have "drawdown_at vs 0 \<le> Max (drawdown_at vs ` {..<length vs})"
    by (intro Max_ge) auto
  then show ?thesis
    using assms by (simp add: spec_max_drawdown_def drawdown_at_0)
qed

lemma spec_max_drawdown_snoc:
  assumes "pre \<noteq> []"
  shows "spec_max_drawdown (pre @ [v]) =
         max (drawdown_at (pre @ [v]) (length pre)) (spec_max_drawdown pre)"
proof -
  have img: "drawdown_at (pre @ [v]) ` {..<length pre} = drawdown_at pre ` {..<length pre}"
    by (intro image_cong) (simp_all add: drawdown_at_append)
  have "{..<length (pre @ [v])} = insert (length pre) {..<length pre}"
    by auto
  then have "drawdown_at (pre @ [v]) ` {..<length (pre @ [v])} =
             insert (drawdown_at (pre @ [v]) (length pre)) (drawdown_at pre ` {..<length pre})"
    using img by simp
  moreover have "drawdown_at pre ` {..<length pre} \<noteq> {}"
    using assms by (simp add: lessThan_empty_iff)
  ultimately show ?thesis
    by (simp add: spec_max_drawdown_def)
qed

lemma nonpos_peak_drawdown:
  fixes p v :: real
  assumes "p \<le> 0" "v \<le> p"
  shows "(p - v) / p * 100 \<le> 0"
proof -
  have "(p - v) / p \<le> 0"
    using assms by (simp add: divide_nonneg_nonpos)
  then show ?thesis
    by (intro mult_nonpos_nonneg) simp_all
qed

lemma drawdown_loop_spec:
  assumes "pre \<noteq> []"
  shows "drawdown_loop (Max (set pre)) (spec_max_drawdown pre) rest = spec_max_drawdown (pre @ rest)"
  using assms
proof (induction rest arbitrary: pre)
  case Nil
  then show ?case by simp
next
  case (Cons v rest)
  define P where "P = Max (set pre)"
  define P' where "P' = (if v > P then v else P)"
  define D where "D = spec_max_drawdown pre"
  have "Max (insert v (set pre)) = max v (Max (set pre))"
    using Cons.prems by (intro Max_insert) simp_all
  then have peak: "P' = Max (set (pre @ [v]))"
    by (simp add: max_def P'_def P_def)
  have dd: "drawdown_at (pre @ [v]) (length pre) = (P' - v) / P' * 100"
    unfolding drawdown_at_def running_peak_def using peak by simp
  have nn: "0 \<le> D"
    unfolding D_def using Cons.prems by (rule spec_max_drawdown_nonneg)
  have vle: "v \<le> P'"
    by (simp add: P'_def)
  have snoc: "spec_max_drawdown (pre @ [v]) = max ((P' - v) / P' * 100) D"
    using spec_max_drawdown_snoc [OF Cons.prems, of v] dd by (simp add: D_def)
  have acc: "(if P' > 0
              then (let d = (P' - v) / P' * 100 in if d > D then d else D)
              else D) = spec_max_drawdown (pre @ [v])"
  proof (cases "P' > 0")
    case True
    then show ?thesis by (simp add: snoc Let_def max_def)
  next
    case False
    then have "(P' - v) / P' * 100 \<le> 0"
      using vle by (intro nonpos_peak_drawdown) simp_all
    then show ?thesis
      using False nn by (simp add: snoc max_def)
  qed
  have "drawdown_loop P D (v # rest) =
        drawdown_loop P' (if P' > 0
              then (let d = (P' - v) / P' * 100 in if d > D then d else D)
              else D) rest"
    unfolding P'_def by (simp only: drawdown_loop.simps Let_def)
  also have "\<dots> = drawdown_loop P' (spec_max_drawdown (pre @ [v])) rest"
    by (simp only: acc)
  also have "\<dots> = drawdown_loop (Max (set (pre @ [v]))) (spec_max_drawdown (pre @ [v])) rest"
    using peak by simp
  also have "\<dots> = spec_max_drawdown ((pre @ [v]) @ rest)"
    by (rule Cons.IH) simp
  finally show ?case by (simp add: P_def D_def)
qed

lemma drawdown_loop_first: "drawdown_loop v 0 (v # vs) = drawdown_loop v 0 vs"
  by (simp add: Let_def)

lemma drawdown_loop_is_spec:
  assumes "vs \<noteq> []"
  shows "drawdown_loop (hd vs) 0 vs = spec_max_drawdown vs"
proof -
  obtain v rest where vs: "vs = v # rest" using assms by (cases vs) auto
  have one: "spec_max_drawdown [v] = 0"
    by (simp add: spec_max_drawdown_def drawdown_at_def running_peak_def lessThan_Suc)
  have "drawdown_loop v 0 rest = spec_max_drawdown ([v] @ rest)"
    using drawdown_loop_spec [of "[v]" rest] one by simp
  then show ?thesis
    using vs drawdown_loop_first by simp
qed

text \<open>
  Claim C7. When the window holds no snapshot the response is the all-zero summary
  with no snapshots. Otherwise, over the snapshots in ascending order of time with an
  absent total value read as 0: the start and end values are the first and last total
  value, the return is \<open>(end - start) / start * 100\<close> (0 when the start is 0), the
  maximum drawdown is the largest \<open>(running_peak - value) / running_peak * 100\<close>
  over the series and the pnl sum is the sum of the snapshots' total pnl. For the total
  values 100, 120, 90, 130 this gives 100, 130, 30 and 25. Where a running peak is 0
  the quotient of the claim has no value; HOL reads it as 0, which is what the
  source's guard \<open>max_peak > 0\<close> leaves in place.
\<close>

theorem performance_summary:
  "(query_snapshots (now - days * 86400) table = [] \<longrightarrow>
      get_performance now days table = \<lparr>summary = zero_summary, snapshots = []\<rparr>) \<and>
   (query_snapshots (now - days * 86400) table \<noteq> [] \<longrightarrow>
      (let rows = query_snapshots (now - days * 86400) table;
           vs = map (\<lambda>r. or_zero (as_total_value r)) rows;
           s = summary (get_performance now days table)
       in start_value s = hd vs \<and> end_value s = last vs \<and>
          total_return_pct s = (if hd vs = 0 then 0 else (last vs - hd vs) / hd vs * 100) \<and>
          max_drawdown_pct s = spec_max_drawdown vs \<and>
          pnl_sum s = (\<Sum>r\<leftarrow>rows. or_zero (as_total_pnl r)))) \<and>
   (map as_total_value (query_snapshots (now - days * 86400) table)
        = [Some 100, Some 120, Some 90, Some 130] \<longrightarrow>
      (let s = summary (get_performance now days table)
       in start_value s = 100 \<and> end_value s = 130 \<and> total_return_pct s = 30 \<and>
          max_drawdown_pct s = 25))"
proof (intro conjI impI)
  assume "query_snapshots (now - days * 86400) table = []"
  then show "get_performance now days table = \<lparr>summary = zero_summary, snapshots = []\<rparr>"
    by (simp add: get_performance_def summarize_def)
next
  assume ne: "query_snapshots (now - days * 86400) table \<noteq> []"
  define rows where "rows = query_snapshots (now - days * 86400) table"
  have "map (\<lambda>r. or_zero (as_total_value r)) rows \<noteq> []"
    using ne by (simp add: rows_def)
  then have dd: "drawdown_loop (hd (map (\<lambda>r. or_zero (as_total_value r)) rows)) 0
                   (map (\<lambda>r. or_zero (as_total_value r)) rows)
                 = spec_max_drawdown (map (\<lambda>r. or_zero (as_total_value r)) rows)"
    by (rule drawdown_loop_is_spec)
  have pnl: "sum_list (map (ps_total_pnl \<circ> to_snapshot) rows) =
             (\<Sum>r\<leftarrow>rows. or_zero (as_total_pnl r))"
    by (simp add: to_snapshot_def comp_def)
  have "rows \<noteq> []" using ne by (simp add: rows_def)
  then show "let rows = query_snapshots (now - days * 86400) table;
           vs = map (\<lambda>r. or_zero (as_total_value r)) rows;
           s = summary (get_performance now days table)
       in start_value s = hd vs \<and> end_value s = last vs \<and>
          total_return_pct s = (if hd vs = 0 then 0 else (last vs - hd vs) / hd vs * 100) \<and>
          max_drawdown_pct s = spec_max_drawdown vs \<and>
          pnl_sum s = (\<Sum>r\<leftarrow>rows. or_zero (as_total_pnl r))"
    unfolding rows_def [symmetric] get_performance_def Let_def
    using dd pnl by (simp add: summarize_def Let_def)
next
  assume ex: "map as_total_value (query_snapshots (now - days * 86400) table)
        = [Some 100, Some 120, Some 90, Some 130]"
  define rows where "rows = query_snapshots (now - days * 86400) table"
  have vs: "map (\<lambda>r. or_zero (as_total_value r)) rows = [100, 120, 90, 130]"
  proof -
    have "map (\<lambda>r. or_zero (as_total_value r)) rows = map or_zero (map as_total_value rows)"
      by simp
    also have "\<dots> = [100, 120, 90, 130]"
      using ex by (simp add: rows_def or_zero_def)
    finally show ?thesis .
  qed
  have "rows \<noteq> []" using vs by auto
  then show "let s = summary (get_performance now days table)
       in start_value s = 100 \<and> end_value s = 130 \<and> total_return_pct s = 30 \<and>
          max_drawdown_pct s = 25"
    unfolding rows_def [symmetric] get_performance_def
    by (simp add: summarize_def Let_def vs)
qed

lemma c7_query:
  "query_snapshots (1000 - 10 * 86400 + 863100) c7_table =
     [snap 100 100 0, snap 200 120 20, snap 300 90 (-10), snap 400 130 30]"
  by (simp add: query_snapshots_def c7_table_def snap_def)

text \<open>
  Witness for C7: four snapshots inside the window, stored out of order, and one
  outside it; and a window that holds none.
\<close>

theorem performance_summary_witness:
  "map as_total_value (query_snapshots (1000 + 863100 - 10 * 86400) c7_table)
      = [Some 100, Some 120, Some 90, Some 130] \<and>
   summary (get_performance (1000 + 863100) 10 c7_table) =
     \<lparr>start_value = 100, end_value = 130, total_return_pct = 30,
      max_drawdown_pct = 25, pnl_sum = 40\<rparr> \<and>
   spec_max_drawdown [100, 120, 90, 130] = 25 \<and>
   query_snapshots (90000 - 1 * 86400) c7_table = [] \<and>
   get_performance 90000 1 c7_table = \<lparr>summary = zero_summary, snapshots = []\<rparr>"
proof -
  have q: "query_snapshots (1000 + 863100 - 10 * 86400) c7_table =
     [snap 100 100 0, snap 200 120 20, snap 300 90 (-10), snap 400 130 30]"
    using c7_query by simp
  have q0: "query_snapshots (90000 - 1 * 86400) c7_table = []"
    by (simp add: query_snapshots_def c7_table_def snap_def)
  note ps = performance_summary [of "1000 + 863100" 10 c7_table]
  note ps0 = performance_summary [of 90000 1 c7_table]
  have vs: "map (\<lambda>r. or_zero (as_total_value r))
              [snap 100 100 0, snap 200 120 20, snap 300 90 (-10), snap 400 130 30]
            = [100, 120, 90, 130]"
    by (simp add: snap_def or_zero_def)
  have a: "max_drawdown_pct (summary (get_performance (1000 + 863100) 10 c7_table)) = 25"
    using ps q by (simp add: snap_def Let_def)
  have b: "max_drawdown_pct (summary (get_performance (1000 + 863100) 10 c7_table))
           = spec_max_drawdown [100, 120, 90, 130]"
    using ps q vs by (simp add: Let_def)
  have c: "summary (get_performance (1000 + 863100) 10 c7_table) =
     \<lparr>start_value = 100, end_value = 130, total_return_pct = 30,
      max_drawdown_pct = 25, pnl_sum = 40\<rparr>"
    using ps q vs a by (simp add: Let_def snap_def or_zero_def)
  have d: "get_performance 90000 1 c7_table = \<lparr>summary = zero_summary, snapshots = []\<rparr>"
    using ps0 q0 by simp
  have e: "spec_max_drawdown [100, 120, 90, 130] = 25"
    using a b by simp
  have f: "map as_total_value (query_snapshots (1000 + 863100 - 10 * 86400) c7_table)
      = [Some 100, Some 120, Some 90, Some 130]"
    by (simp only: q) (simp add: snap_def)
  show ?thesis
    using f c e q0 d by (intro conjI)
qed

section \<open>Properties of the indicator engine\<close>

lemma length_ewm_from: "length (ewm_from alpha prev xs) = length xs"
  by (induction xs arbitrary: prev) (simp_all add: Let_def)

lemma ewm_from_nth:
  "t < length xs \<Longrightarrow>
   (prev # ewm_from alpha prev xs) ! Suc t =
     (prev # ewm_from alpha prev xs) ! t + alpha * (xs ! t - (prev # ewm_from alpha prev xs) ! t)"
proof (induction xs arbitrary: prev t)
  case Nil
  then show ?case by simp
next
  case (Cons x xs)
  show ?case
  proof (cases t)
    case 0
    then show ?thesis by (simp add: Let_def algebra_simps)
  next
    case (Suc k)
    then have "k < length xs" using Cons.prems by simp
    from Cons.IH [OF this, of "(1 - alpha) * prev + alpha * x"]
    show ?thesis using Suc by (simp add: Let_def)
  qed
qed

lemma ewm_mean_recursion:
  assumes "1 \<le> spn"
  shows "\<exists>ema. ewm_mean spn closes = Inr ema \<and>
           spec_ema_recursion (2 / (real_of_int spn + 1)) closes ema"
proof (cases closes)
  case Nil
  then show ?thesis using assms by (simp add: ewm_mean_def spec_ema_recursion_def)
next
  case (Cons x xs)
  let ?a = "2 / (real_of_int spn + 1)"
  let ?ema = "x # ewm_from ?a x xs"
  have e: "ewm_mean spn closes = Inr ?ema"
    using assms Cons by (simp add: ewm_mean_def)
  have "\<And>t. 0 < t \<Longrightarrow> t < length closes \<Longrightarrow>
          ?ema ! t = ?ema ! (t - 1) + ?a * (closes ! t - ?ema ! (t - 1))"
  proof -
    fix t assume t: "0 < t" "t < length closes"
    then obtain k where k: "t = Suc k" by (cases t) auto
    then have "k < length xs" using t Cons by simp
    from ewm_from_nth [OF this, of x ?a] show
      "?ema ! t = ?ema ! (t - 1) + ?a * (closes ! t - ?ema ! (t - 1))"
      using k Cons by simp
  qed
  then have "spec_ema_recursion ?a closes ?ema"
    using Cons by (simp add: spec_ema_recursion_def length_ewm_from)
  then show ?thesis using e by blast
qed

lemma ema_example:
  "add_exponential_moving_averages [100, 102, 101, 105] [2] =
     Inr [(2, [100, 304 / 3, 910 / 9, 2800 / 27])]"
  by (simp add: ewm_mean_def Let_def)

text \<open>
  Counterexample to C4 as stated: on the closes 1, 2, ..., 15 the rolling-14 loss at
  the last row is 0 and \<open>add_rsi\<close> returns the finite value 100 there, not a
  sentinel.
\<close>

theorem rsi_rising_counterexample:
  "map_sum id (\<lambda>loss. loss ! 14) (rsi_loss rising15 14) = Inr (Some 0) \<and>
   map_sum id (\<lambda>rsi. rsi ! 14) (add_rsi rising15 14) = Inr (Fin 100)"
  by code_simp

lemma add_ema_columns:
  assumes "\<forall>p \<in> set periods. 1 \<le> p"
  shows "\<exists>cols. add_exponential_moving_averages closes periods = Inr cols \<and>
           map fst cols = periods \<and>
           list_all (\<lambda>(p, ema). spec_ema_recursion (2 / (real_of_int p + 1)) closes ema) cols"
  using assms
proof (induction periods)
  case Nil
  then show ?case by simp
next
  case (Cons p periods)
  then have "1 \<le> p" by simp
  then obtain ema where e: "ewm_mean p closes = Inr ema"
      and r: "spec_ema_recursion (2 / (real_of_int p + 1)) closes ema"
    using ewm_mean_recursion by blast
  obtain cols where c: "add_exponential_moving_averages closes periods = Inr cols"
      and m: "map fst cols = periods"
      and a: "list_all (\<lambda>(p, ema). spec_ema_recursion (2 / (real_of_int p + 1)) closes ema) cols"
    using Cons by auto
  show ?case
    using e r c m a by simp
qed

text \<open>
  Claim C6, as amended. For every series of closes and every list of spans of at
  least 1, each EMA column starts at the first close and satisfies
  \<open>EMA_t = EMA_(t-1) + alpha * (close_t - EMA_(t-1))\<close> with
  \<open>alpha = 2 / (span + 1)\<close>; for the closes 100, 102, 101, 105 and span 2 the
  column is 100, 101.33, 101.11, 103.70 to two decimals.
\<close>

theorem ema_recursion:
  assumes "\<forall>p \<in> set periods. 1 \<le> p"
  shows "(\<exists>cols. add_exponential_moving_averages closes periods = Inr cols \<and>
           map fst cols = periods \<and>
           list_all (\<lambda>(p, ema). spec_ema_recursion (2 / (real_of_int p + 1)) closes ema) cols) \<and>
         (\<exists>ema. add_exponential_moving_averages [100, 102, 101, 105] [2] = Inr [(2, ema)] \<and>
           list_all2 approx2 ema [100, 10133 / 100, 10111 / 100, 10370 / 100])"
proof
  show "\<exists>cols. add_exponential_moving_averages closes periods = Inr cols \<and>
           map fst cols = periods \<and>
           list_all (\<lambda>(p, ema). spec_ema_recursion (2 / (real_of_int p + 1)) closes ema) cols"
    using assms by (rule add_ema_columns)
next
  have "list_all2 approx2 [100, 304 / 3, 910 / 9, 2800 / 27]
          [100, 10133 / 100, 10111 / 100, 10370 / 100]"
    by (simp add: approx2_def)
  then show "\<exists>ema. add_exponential_moving_averages [100, 102, 101, 105] [2] = Inr [(2, ema)] \<and>
           list_all2 approx2 ema [100, 10133 / 100, 10111 / 100, 10370 / 100]"
    using ema_example by blast
qed

text \<open>
  Witness for C6: the default spans 12 and 26.
\<close>

theorem ema_recursion_witness:
  "\<exists>cols. add_exponential_moving_averages [100, 102, 101, 105] [12, 26] = Inr cols \<and>
     map fst cols = [12, 26] \<and>
     list_all (\<lambda>(p, ema). spec_ema_recursion (2 / (real_of_int p + 1)) [100, 102, 101, 105] ema) cols"
proof -
  have "\<forall>p \<in> set [12, 26 :: int]. 1 \<le> p" by simp
  from ema_recursion [OF this, of "[100, 102, 101, 105]"] show ?thesis by blast
qed

text \<open>
  Counterexample to C6 as stated: the fourth value of the example is
  \<open>2800 / 27\<close>, about 103.70; it differs from the quoted 103.04 by more than 0.66.
\<close>

theorem ema_example_counterexample:
  "add_exponential_moving_averages [100, 102, 101, 105] [2] =
     Inr [(2, [100, 304 / 3, 910 / 9, 2800 / 27])] \<and>
   \<not> list_all2 approx2 [100, 304 / 3, 910 / 9, 2800 / 27]
        [100, 10133 / 100, 10111 / 100, 10304 / 100] \<and>
   \<bar>2800 / 27 - 10304 / 100\<bar> > (66 / 100 :: real)"
  by (simp add: ewm_mean_def Let_def approx2_def)

lemma sum_list_all_zero:
  fixes ys :: "real list"
  shows "\<forall>y \<in> set ys. y = 0 \<Longrightarrow> sum_list ys = 0"
  by (induction ys) simp_all

lemma window_elem:
  assumes "y \<in> set (take w (drop k xs))"
  shows "\<exists>j. k \<le> j \<and> j < k + w \<and> j < length xs \<and> y = xs ! j"
proof -
  from assms obtain n where n: "n < length (take w (drop k xs))" "y = take w (drop k xs) ! n"
    unfolding in_set_conv_nth by blast
  then have nw: "n < w" and kn: "k + n < length xs" by auto
  have "take w (drop k xs) ! n = drop k xs ! n" using nw by simp
  also have "\<dots> = xs ! (k + n)" using kn by (intro nth_drop) simp
  finally have "y = xs ! (k + n)" using n(2) by simp
  then show ?thesis using nw kn by (intro exI [of _ "k + n"]) simp
qed

lemma diff_nth: "j < length xs \<Longrightarrow>
    diff xs ! j = (if j = 0 then None else Some (xs ! j - xs ! (j - 1)))"
  by (simp add: diff_def)

lemma length_diff: "length (diff xs) = length xs"
  by (simp add: diff_def)

lemma gain_part_nonneg: "0 \<le> gain_part d"
  by (simp add: gain_part_def split: option.split)

lemma rolling_mean_nth:
  assumes "1 \<le> w" "nat w \<le> Suc i" "i < length xs"
  shows "\<exists>col. rolling_mean w xs = Inr col \<and> length col = length xs \<and>
           col ! i = Some (sum_list (take (nat w) (drop (Suc i - nat w) xs)) / real (nat w))"
  using assms by (simp add: rolling_mean_def)

lemma rsi_of_zero_loss:
  assumes "0 \<le> g"
  shows "rsi_of (Some g) (Some 0) = (if g = 0 then NaN else Fin 100)"
  using assms by (simp add: rsi_of_def fl_of_def fl_sub_def)

text \<open>
  Claim C4, as amended. At an index whose window holds only non-negative close
  differences (the NaN of the first row counting as 0), the rolling loss is 0 and the
  RSI is the ordinary value 100 whenever the rolling gain is positive; it is NaN only
  when the gain is 0 as well, that is on a flat window.
\<close>

theorem rsi_zero_loss:
  assumes "1 \<le> period" and "nat period \<le> Suc i" and "i < length closes"
      and "\<forall>j. Suc i - nat period \<le> j \<and> j \<le> i \<and> 0 < j \<longrightarrow> closes ! (j - 1) \<le> closes ! j"
  shows "\<exists>gain loss g rsi.
           rsi_gain closes period = Inr gain \<and> rsi_loss closes period = Inr loss \<and>
           gain ! i = Some g \<and> 0 \<le> g \<and> loss ! i = Some 0 \<and>
           add_rsi closes period = Inr rsi \<and>
           rsi ! i = (if g = 0 then NaN else Fin 100)"
proof -
  let ?gs = "map gain_part (diff closes)"
  let ?ls = "map loss_part (diff closes)"
  let ?k = "Suc i - nat period"
  have len: "i < length ?gs" "i < length ?ls"
    using assms(3) by (simp_all add: length_diff)
  obtain gain where g1: "rsi_gain closes period = Inr gain"
      and g2: "length gain = length closes"
      and g3: "gain ! i = Some (sum_list (take (nat period) (drop ?k ?gs)) / real (nat period))"
    using rolling_mean_nth [OF assms(1,2) len(1)] by (auto simp: rsi_gain_def length_diff)
  obtain loss where l1: "rsi_loss closes period = Inr loss"
      and l2: "length loss = length closes"
      and l3: "loss ! i = Some (sum_list (take (nat period) (drop ?k ?ls)) / real (nat period))"
    using rolling_mean_nth [OF assms(1,2) len(2)] by (auto simp: rsi_loss_def length_diff)
  have "\<forall>y \<in> set (take (nat period) (drop ?k ?ls)). y = 0"
  proof
    fix y assume "y \<in> set (take (nat period) (drop ?k ?ls))"
    from window_elem [OF this]
    obtain j where j: "?k \<le> j" "j < ?k + nat period" "j < length ?ls" "y = ?ls ! j"
      by blast
    have jc: "j < length closes" using j(3) by (simp add: length_diff)
    have ji: "j \<le> i" using j(2) assms(2) by simp
    show "y = 0"
    proof (cases "j = 0")
      case True
      then show ?thesis using j(4) jc by (simp add: diff_nth length_diff loss_part_def)
    next
      case False
      then have "closes ! (j - 1) \<le> closes ! j"
        using assms(4) j(1) ji by simp
      then show ?thesis
        using j(4) jc False by (simp add: diff_nth length_diff loss_part_def)
    qed
  qed
  then have "sum_list (take (nat period) (drop ?k ?ls)) = 0"
    by (rule sum_list_all_zero)
  then have lz: "loss ! i = Some 0" using l3 by simp
  define g where "g = sum_list (take (nat period) (drop ?k ?gs)) / real (nat period)"
  have "0 \<le> sum_list (take (nat period) (drop ?k ?gs))"
  proof (rule sum_list_nonneg)
    fix y assume "y \<in> set (take (nat period) (drop ?k ?gs))"
    then have "y \<in> set ?gs" by (meson in_set_dropD in_set_takeD)
    then show "0 \<le> y" using gain_part_nonneg by auto
  qed
  then have gn: "0 \<le> g" by (simp add: g_def)
  have gi: "gain ! i = Some g" using g3 by (simp add: g_def)
  have "map2 rsi_of gain loss ! i = rsi_of (gain ! i) (loss ! i)"
    using g2 l2 assms(3) by simp
  then have "map2 rsi_of gain loss ! i = (if g = 0 then NaN else Fin 100)"
    using gi lz rsi_of_zero_loss [OF gn] by simp
  moreover have "add_rsi closes period = Inr (map2 rsi_of gain loss)"
    using g1 l1 by (simp add: add_rsi_def)
  ultimately show ?thesis
    using g1 l1 gi gn lz
    by (intro exI [of _ gain] exI [of _ loss] exI [of _ g]
          exI [of _ "map2 rsi_of gain loss"]) simp
qed

lemma rising15_nth: "j < 15 \<Longrightarrow> rising15 ! j = real (Suc j)"
  by (simp add: rising15_def)

text \<open>
  Witness for C4: the closes 1, 2, ..., 15 and the window of 14 ending at the last row.
\<close>

theorem rsi_zero_loss_witness:
  "\<exists>gain loss g rsi.
      rsi_gain rising15 14 = Inr gain \<and> rsi_loss rising15 14 = Inr loss \<and>
      gain ! 14 = Some g \<and> 0 \<le> g \<and> loss ! 14 = Some 0 \<and>
      add_rsi rising15 14 = Inr rsi \<and>
      rsi ! 14 = (if g = 0 then NaN else Fin 100)"
proof -
  have len: "length rising15 = 15" by (simp add: rising15_def)
  have mono: "\<forall>j. Suc 14 - nat 14 \<le> j \<and> j \<le> 14 \<and> 0 < j \<longrightarrow>
                rising15 ! (j - 1) \<le> rising15 ! j"
  proof (intro allI impI)
    fix j :: nat assume j: "Suc 14 - nat 14 \<le> j \<and> j \<le> 14 \<and> 0 < j"
    then have "j \<le> 14" by blast
    then have lt: "j - 1 < 15" "j < 15" by arith+
    have "rising15 ! (j - 1) = real (Suc (j - 1))" "rising15 ! j = real (Suc j)"
      using lt [THEN rising15_nth] by blast+
    then show "rising15 ! (j - 1) \<le> rising15 ! j" by simp
  qed
  show ?thesis
    by (rule rsi_zero_loss [of 14 14 rising15, OF _ _ _ mono]) (simp_all add: len)
qed

section \<open>Properties of the risk gate and the order path\<close>

lemma position_cap_check_not_daily:
  "position_cap_check lims sc q \<noteq> Inl (RiskLimit (DailyBuyAmountExceeded remain c))"
  by (simp add: position_cap_check_def)

lemma weight_cap_check_not_daily:
  "weight_cap_check lims sc tv q \<noteq> Inl (RiskLimit (DailyBuyAmountExceeded remain c))"
  by (simp add: weight_cap_check_def Let_def split: option.split)

lemma check_risk_limit_daily_iff:
  "(\<exists>remain c. check_risk_limit d settings orders start (Inr bal) stock_code ''BUY'' q =
        Inl (RiskLimit (DailyBuyAmountExceeded remain c))) \<longleftrightarrow>
   (\<exists>remain c. daily_cap_check (resolve_limits d (find_setting settings stock_code)) start orders
        (scan_holdings stock_code (output1 bal)) q =
        Inl (RiskLimit (DailyBuyAmountExceeded remain c)))"
proof -
  let ?lims = "resolve_limits d (find_setting settings stock_code)"
  let ?sc = "scan_holdings stock_code (output1 bal)"
  show ?thesis
  proof (cases "daily_cap_check ?lims start orders ?sc q")
    case (Inl e)
    then show ?thesis by (simp add: check_risk_limit_def Let_def)
  next
    case (Inr u)
    note daily = this
    show ?thesis
    proof (cases "position_cap_check ?lims ?sc q")
      case (Inl e)
      then have "e \<noteq> RiskLimit (DailyBuyAmountExceeded remain c)" for remain c
        using position_cap_check_not_daily [of ?lims ?sc q remain c] by auto
      then show ?thesis
        using daily Inl by (simp add: check_risk_limit_def Let_def)
    next
      case (Inr v)
      then show ?thesis
        using daily weight_cap_check_not_daily
        by (simp add: check_risk_limit_def Let_def)
    qed
  qed
qed

lemma daily_cap_check_iff:
  assumes "0 < max_daily_buy_amount lims"
  shows "(\<exists>remain c. daily_cap_check lims start orders sc q =
            Inl (RiskLimit (DailyBuyAmountExceeded remain c))) \<longleftrightarrow>
         (0 < est_amount_of (current_price sc) q \<and>
          max_daily_buy_amount lims + eps6 < spent_today start orders + est_amount_of (current_price sc) q)"
  using assms by (auto simp: daily_cap_check_def Let_def)

lemma spent_today_ignores_instrument:
  "spent_today start (map (\<lambda>row. row\<lparr>to_stock_code := c\<rparr>) orders) = spent_today start orders"
  by (induction orders) (simp_all add: spent_today_def)

text \<open>
  Claim C2, as amended. For a BUY request with a positive daily cap, the amount summed
  against the cap is today's prior OK-status BUY order amount over all instruments (an
  order's instrument does not enter the sum) plus the estimated new amount at the last
  known price, 0 when no positive price is known; the gate rejects on the daily cap
  exactly when the estimate is positive and the sum exceeds the cap by more than
  \<open>1e-6\<close>.
\<close>

theorem daily_cap_decision:
  assumes "0 < max_daily_buy_amount (resolve_limits d (find_setting settings stock_code))"
  shows "((\<exists>remain c. check_risk_limit d settings orders start (Inr bal) stock_code ''BUY'' q =
              Inl (RiskLimit (DailyBuyAmountExceeded remain c))) \<longleftrightarrow>
          (let cap = max_daily_buy_amount (resolve_limits d (find_setting settings stock_code));
               est = est_amount_of (current_price (scan_holdings stock_code (output1 bal))) q
           in 0 < est \<and> cap + eps6 < spent_today start orders + est)) \<and>
         (\<forall>c. spent_today start (map (\<lambda>row. row\<lparr>to_stock_code := c\<rparr>) orders) =
               spent_today start orders)"
  using daily_cap_check_iff [OF assms] check_risk_limit_daily_iff spent_today_ignores_instrument
  by (simp add: Let_def)

text \<open>
  Witness for C2: cap 1000, 900 already bought today, one share at 200.
\<close>

theorem daily_cap_decision_witness:
  "check_risk_limit std_defaults cap_1000 [other_buy] 0 (Inr held_balance) ''005930'' ''BUY'' 1 =
     Inl (RiskLimit (DailyBuyAmountExceeded 100 1000)) \<and>
   est_amount_of (current_price (scan_holdings ''005930'' (output1 held_balance))) 1 = 200 \<and>
   spent_today 0 [other_buy] = 900 \<and>
   1000 + eps6 < spent_today 0 [other_buy] +
     est_amount_of (current_price (scan_holdings ''005930'' (output1 held_balance))) 1"
proof -
  have cap: "max_daily_buy_amount (resolve_limits std_defaults (find_setting cap_1000 ''005930'')) = 1000"
    by (simp add: resolve_limits_def find_setting_def cap_1000_def std_defaults_def)
  have est: "est_amount_of (current_price (scan_holdings ''005930'' (output1 held_balance))) 1 = 200"
    by (simp add: est_amount_of_def scan_holdings_def holding_step_def held_balance_def
        scan_init_def float_or0_def or_zero_def Let_def)
  have spent: "spent_today 0 [other_buy] = 900"
    by (simp add: spent_today_def other_buy_def or_zero_def)
  have "0 < max_daily_buy_amount (resolve_limits std_defaults (find_setting cap_1000 ''005930''))"
    using cap by simp
  from daily_cap_decision [OF this, of "[other_buy]" 0 held_balance 1]
  have "\<exists>remain c. check_risk_limit std_defaults cap_1000 [other_buy] 0 (Inr held_balance)
            ''005930'' ''BUY'' 1 = Inl (RiskLimit (DailyBuyAmountExceeded remain c))"
    using cap est spent by (simp add: Let_def eps6_def)
  then obtain remain c where r: "check_risk_limit std_defaults cap_1000 [other_buy] 0
      (Inr held_balance) ''005930'' ''BUY'' 1 = Inl (RiskLimit (DailyBuyAmountExceeded remain c))"
    by blast
  have "check_risk_limit std_defaults cap_1000 [other_buy] 0 (Inr held_balance) ''005930'' ''BUY'' 1 =
     Inl (RiskLimit (DailyBuyAmountExceeded 100 1000))"
    using r cap est spent
    by (simp add: check_risk_limit_def daily_cap_check_def Let_def eps6_def)
  then show ?thesis
    using est spent by (simp add: eps6_def)
qed

text \<open>
  Counterexample to C2 as stated: the 900 spent today went to another instrument, so
  the sum for the requested instrument is 200 against a cap of 1000, and the gate
  rejects all the same.
\<close>

theorem daily_cap_other_instrument_counterexample:
  "check_risk_limit std_defaults cap_1000 [other_buy] 0 (Inr held_balance) ''005930'' ''BUY'' 1 =
     Inl (RiskLimit (DailyBuyAmountExceeded 100 1000)) \<and>
   to_stock_code other_buy = ''000660'' \<and>
   spec_spent_today 0 [other_buy] ''005930'' = 0 \<and>
   \<not> spec_daily_cap_rejects 1000 0 [other_buy] ''005930'' (Some 200) 1"
  by (simp add: check_risk_limit_def daily_cap_check_def resolve_limits_def find_setting_def
      cap_1000_def std_defaults_def est_amount_of_def scan_holdings_def holding_step_def
      held_balance_def scan_init_def float_or0_def or_zero_def spent_today_def other_buy_def
      spec_daily_cap_rejects_def spec_spent_today_def eps6_def Let_def)

lemma scan_no_match:
  "\<forall>h \<in> set hs. pdno h \<noteq> Some code \<Longrightarrow>
   current_price (fold (holding_step code) hs st) = current_price st"
  by (induction hs arbitrary: st) (simp_all add: holding_step_def Let_def)

text \<open>
  Claim C10. When the instrument is absent from the holdings, the scan leaves the
  current price at \<open>None\<close>, the estimated amount is 0, and the gate never rejects a
  BUY on the daily cap, whatever was spent today and whatever the cap.
\<close>

theorem unknown_price_never_hits_daily_cap:
  assumes "\<forall>h \<in> set (output1 bal). pdno h \<noteq> Some stock_code"
  shows "current_price (scan_holdings stock_code (output1 bal)) = None \<and>
         est_amount_of (current_price (scan_holdings stock_code (output1 bal))) q = 0 \<and>
         (\<forall>remain c. check_risk_limit d settings orders start (Inr bal) stock_code ''BUY'' q \<noteq>
                        Inl (RiskLimit (DailyBuyAmountExceeded remain c)))"
proof -
  have cp: "current_price (scan_holdings stock_code (output1 bal)) = None"
    using scan_no_match [OF assms, of scan_init] by (simp add: scan_holdings_def scan_init_def)
  then have est: "est_amount_of (current_price (scan_holdings stock_code (output1 bal))) q = 0"
    by (simp add: est_amount_of_def or_zero_def)
  have "\<not> (\<exists>remain c. daily_cap_check (resolve_limits d (find_setting settings stock_code)) start
              orders (scan_holdings stock_code (output1 bal)) q =
              Inl (RiskLimit (DailyBuyAmountExceeded remain c)))"
    using est by (simp add: daily_cap_check_def Let_def)
  then have "\<not> (\<exists>remain c. check_risk_limit d settings orders start (Inr bal) stock_code ''BUY'' q =
        Inl (RiskLimit (DailyBuyAmountExceeded remain c)))"
    using check_risk_limit_daily_iff by simp
  then show ?thesis using cp est by blast
qed

text \<open>
  Witness for C10: 5000 spent today against a cap of 1000, the only holding being
  another instrument.
\<close>

theorem unknown_price_never_hits_daily_cap_witness:
  "spent_today 0 [big_buy] = 5000 \<and>
   max_daily_buy_amount (resolve_limits std_defaults (find_setting cap_1000 ''005930'')) = 1000 \<and>
   est_amount_of (current_price (scan_holdings ''005930'' (output1 other_held_balance))) 7 = 0 \<and>
   (\<forall>remain c. check_risk_limit std_defaults cap_1000 [big_buy] 0 (Inr other_held_balance)
                   ''005930'' ''BUY'' 7 \<noteq> Inl (RiskLimit (DailyBuyAmountExceeded remain c)))"
proof -
  have h: "\<forall>h \<in> set (output1 other_held_balance). pdno h \<noteq> Some ''005930''"
    by (simp add: other_held_balance_def)
  have a: "spent_today 0 [big_buy] = 5000"
    by (simp add: spent_today_def big_buy_def other_buy_def or_zero_def)
  have b: "max_daily_buy_amount (resolve_limits std_defaults (find_setting cap_1000 ''005930'')) = 1000"
    by (simp add: resolve_limits_def find_setting_def cap_1000_def std_defaults_def)
  note u = unknown_price_never_hits_daily_cap [OF h, of 7 std_defaults cap_1000 "[big_buy]" 0]
  show ?thesis
    using u a b by (intro conjI) blast+
qed

text \<open>
  Claim C3 at the failing input. With an active row for \<open>005930\<close> (5 shares) and
  an active \<open>ALL\<close> row (100 shares), the descending order puts \<open>ALL\<close> first:
  the wildcard row's limits are applied and a BUY of 6 shares passes the gate. The
  source's comment says the instrument's row has priority.
\<close>

theorem all_row_overrides_specific:
  "find_setting two_settings ''005930'' =
     Some \<lparr>rs_stock_code = ''ALL'', rs_max_position_shares = Some 100,
           rs_max_weight_pct = Some 1, rs_max_daily_buy_amount = Some 0, rs_active = True\<rparr> \<and>
   resolve_limits std_defaults (find_setting two_settings ''005930'') =
     \<lparr>max_shares = 100, max_weight_pct = 1, max_daily_buy_amount = 0\<rparr> \<and>
   check_risk_limit std_defaults two_settings [] 0 (Inr cash_balance) ''005930'' ''BUY'' 6 = Inr ()"
  by (simp add: find_setting_def two_settings_def resolve_limits_def check_risk_limit_def
      daily_cap_check_def position_cap_check_def weight_cap_check_def scan_holdings_def
      scan_init_def cash_balance_def cash_of_def float_or0_def py_or_def Let_def)

text \<open>
  With no active row for the instrument or for \<open>ALL\<close>, the process defaults apply.
\<close>

lemma no_setting_defaults:
  assumes "\<forall>r \<in> set table. \<not> (rs_active r \<and> rs_stock_code r \<in> {stock_code, ''ALL''})"
  shows "resolve_limits d (find_setting table stock_code) =
           \<lparr>max_shares = DEFAULT_MAX_POSITION_SHARES d,
            max_weight_pct = DEFAULT_MAX_WEIGHT_PCT d,
            max_daily_buy_amount = DEFAULT_MAX_DAILY_BUY_AMOUNT d\<rparr>"
proof -
  have "filter (\<lambda>r. rs_active r \<and> rs_stock_code r \<in> {stock_code, ''ALL''}) table = []"
    using assms by (simp add: filter_empty_conv)
  then show ?thesis
    by (simp add: find_setting_def resolve_limits_def)
qed

lemma place_cash_order_rt_cd:
  "place_cash_order cfg world side stock_code quantity = Inr res \<Longrightarrow>
   js_rt_cd res \<in> {None, Some ''0''}"
  by (auto simp: place_cash_order_def js_rt_cd_def
      split: if_splits http_outcome.splits http_body.splits)

text \<open>
  Whenever the caller gets an error, the table of orders is unchanged.
\<close>

lemma order_path_failure_not_audited:
  "fst (place_market_order_internal env orders stock_code side quantity) = Inl e \<Longrightarrow>
   snd (place_market_order_internal env orders stock_code side quantity) = orders"
  by (auto simp: place_market_order_internal_def Let_def split: if_splits sum.splits)

text \<open>
  The status \<open>ERROR\<close> of the audit block is never written: whatever the broker
  does, the table is unchanged or gains one row of status OK.
\<close>

lemma order_path_never_audits_error:
  assumes "place_market_order_internal env orders stock_code side quantity = (r, orders')"
  shows "orders' = orders \<or> (\<exists>row. orders' = orders @ [row] \<and> to_status row = ''OK'')"
proof -
  have ok: "to_status (order_record now stock_code s quantity res) = ''OK''"
    if "js_rt_cd res \<in> {None, Some ''0''}" for now s res
    using that by (simp add: order_record_def Let_def)
  show ?thesis
    using assms ok place_cash_order_rt_cd
    by (auto simp: place_market_order_internal_def buy_market_def sell_market_def Let_def
        split: if_splits sum.splits)
qed

text \<open>
  Claim C1 at the failing input. A BUY of one share passes the gate; the broker
  answers HTTP 200 with business code 1. \<open>place_cash_order\<close> raises, the order
  path turns that into its \<open>HTTPException(500)\<close> before the audit block, and no
  order row is written. The same holds for a transport failure, and a body that is not
  JSON is recorded with status OK.
\<close>

theorem broker_rejection_not_audited:
  "check_risk_limit (oe_defaults rejecting_env) (oe_settings rejecting_env) []
      (oe_today_start rejecting_env) (oe_balance rejecting_env) ''005930'' ''BUY'' 1 = Inr () \<and>
   place_market_order_internal rejecting_env [] ''005930'' ''BUY'' 1 = (Inl BrokerFailure, []) \<and>
   place_market_order_internal (rejecting_env\<lparr>oe_order := NoTransport\<rparr>) [] ''005930'' ''BUY'' 1
     = (Inl BrokerFailure, []) \<and>
   map to_status (snd (place_market_order_internal
       (rejecting_env\<lparr>oe_order := Response 200 (NotJson ''oops'')\<rparr>) [] ''005930'' ''BUY'' 1))
     = [''OK'']"
  by code_simp

end
